theory Spec2Isabelle
  imports Main "HOL-Library.Word"
begin

unbundle bit_operations_syntax

text \<open>
  The secure storage module of the application: a password-derived AES-GCM layer over
  an IndexedDB object store, with a one-way migration from the legacy XOR cipher. The
  module's functions are modelled over explicit state (its two variables, the object
  store, \<open>localStorage\<close>, the random source); what they throw is an \<open>Inl\<close> result.
\<close>

section \<open>JavaScript values used by the storage module\<close>

text \<open>
  A JavaScript string is a sequence of 16-bit code units (\<open>charCodeAt\<close> reads one,
  \<open>String.fromCharCode\<close> builds one); a \<open>Uint8Array\<close> is a sequence of bytes.
\<close>

type_synonym code_unit = "16 word"
type_synonym jsstring = "code_unit list"
type_synonym bytes = "8 word list"

text \<open>An ASCII literal of the source, as a JavaScript string.\<close>

definition ascii :: "string \<Rightarrow> jsstring" where
  "ascii s = map (\<lambda>c. of_nat (of_char c)) s"

text \<open>
  What an IndexedDB record of the module can hold: the salt is written as a
  \<open>Uint8Array\<close>, the verifier and the data blob as strings, and \<open>migrateKey\<close>
  writes whatever string \<open>localStorage\<close> held under the key. \<open>getFromDB\<close> is typed
  \<open>any\<close>, so the readers see either.
\<close>

datatype val = Bytes bytes | Str jsstring

text \<open>JavaScript truthiness, as tested by \<open>if (salt)\<close> and \<open>!verifier\<close>:
  a typed array is always truthy, a string is truthy unless it is empty.\<close>

fun truthy :: "val \<Rightarrow> bool" where
  "truthy (Bytes b) = True"
| "truthy (Str s) = (s \<noteq> [])"

text \<open>
  The errors that the module throws or that reach it from the platform. The module
  throws plain \<open>Error\<close>s told apart by their message: the two "master key not available"
  errors are the missing session key, "Failed to decrypt data." is the corrupt data of
  the modern path, and "Failed to migrate legacy data." is the failed migration.
\<close>

datatype error =
    LegacyKeyMissing        \<comment> \<open>\<open>Error('Legacy master key is not set for migration.')\<close>\<close>
  | InvalidCharacterError   \<comment> \<open>\<open>DOMException\<close> of \<open>atob\<close> and \<open>btoa\<close>\<close>
  | URIError                \<comment> \<open>\<open>decodeURIComponent\<close> on malformed UTF-8\<close>
  | OperationError          \<comment> \<open>rejection of \<open>crypto.subtle.decrypt\<close>\<close>
  | TypeError               \<comment> \<open>\<open>crypto.subtle.deriveKey\<close> with a salt that is no buffer\<close>
  | SyntaxError             \<comment> \<open>\<open>JSON.parse\<close>\<close>
  | RequestError            \<comment> \<open>\<open>request.error\<close> of a rejected IndexedDB request\<close>
  | SaveKeyMissing          \<comment> \<open>\<open>Error("Cannot save data: master key not available. ...")\<close>\<close>
  | DecryptFailed           \<comment> \<open>\<open>Error("Failed to decrypt data.")\<close>\<close>
  | MigrateFailed           \<comment> \<open>\<open>Error("Failed to migrate legacy data.")\<close>\<close>
  | LoadKeyMissing          \<comment> \<open>\<open>Error("Cannot load data: no master key available.")\<close>\<close>

text \<open>The value that \<open>JSON.parse\<close> returns and \<open>JSON.stringify\<close> takes.\<close>

datatype json =
    JNull
  | JBool bool
  | JNum int
  | JStr jsstring
  | JArr "json list"
  | JObj "(string \<times> json) list"

section \<open>Platform functions the module calls\<close>

subsection \<open>\<open>TextEncoder.encode\<close>: UTF-16 to UTF-8\<close>

definition is_high_surrogate :: "code_unit \<Rightarrow> bool" where
  "is_high_surrogate u \<longleftrightarrow> 0xD800 \<le> unat u \<and> unat u \<le> 0xDBFF"

definition is_low_surrogate :: "code_unit \<Rightarrow> bool" where
  "is_low_surrogate u \<longleftrightarrow> 0xDC00 \<le> unat u \<and> unat u \<le> 0xDFFF"

text \<open>A code unit on its own: a lone surrogate becomes U+FFFD.\<close>

definition lone_unit :: "code_unit \<Rightarrow> nat" where
  "lone_unit u =
     (if is_high_surrogate u \<or> is_low_surrogate u then 0xFFFD else unat u)"

text \<open>The scalar values of a string (its conversion to a \<open>USVString\<close>).\<close>

fun scalar_values :: "jsstring \<Rightarrow> nat list" where
  "scalar_values [] = []"
| "scalar_values [u] = [lone_unit u]"
| "scalar_values (u # v # us) =
     (if is_high_surrogate u \<and> is_low_surrogate v
      then (0x10000 + (unat u - 0xD800) * 1024 + (unat v - 0xDC00)) # scalar_values us
      else lone_unit u # scalar_values (v # us))"

definition utf8_bytes :: "nat \<Rightarrow> bytes" where
  "utf8_bytes c =
     (if c < 0x80 then [of_nat c]
      else if c < 0x800 then [of_nat (0xC0 + c div 64), of_nat (0x80 + c mod 64)]
      else if c < 0x10000 then
        [of_nat (0xE0 + c div 4096), of_nat (0x80 + c div 64 mod 64), of_nat (0x80 + c mod 64)]
      else
        [of_nat (0xF0 + c div 262144), of_nat (0x80 + c div 4096 mod 64),
         of_nat (0x80 + c div 64 mod 64), of_nat (0x80 + c mod 64)])"

definition TextEncoder_encode :: "jsstring \<Rightarrow> bytes" where
  "TextEncoder_encode s = concat (map utf8_bytes (scalar_values s))"

subsection \<open>\<open>btoa\<close>: base64 of a binary string\<close>

text \<open>The base64 alphabet: the character of a 6-bit value.\<close>

definition b64_char :: "nat \<Rightarrow> code_unit" where
  "b64_char n =
     (if n < 26 then of_nat (65 + n)
      else if n < 52 then of_nat (71 + n)
      else if n < 62 then of_nat (n - 4)
      else if n = 62 then 43 else 47)"

definition pad_char :: code_unit where
  "pad_char = 61"

fun base64_encode :: "nat list \<Rightarrow> jsstring" where
  "base64_encode [] = []"
| "base64_encode [a] =
     [b64_char (a div 4), b64_char (a mod 4 * 16), pad_char, pad_char]"
| "base64_encode [a, b] =
     [b64_char (a div 4), b64_char (a mod 4 * 16 + b div 16), b64_char (b mod 16 * 4), pad_char]"
| "base64_encode (a # b # c # r) =
     [b64_char (a div 4), b64_char (a mod 4 * 16 + b div 16),
      b64_char (b mod 16 * 4 + c div 64), b64_char (c mod 64)] @ base64_encode r"

text \<open>The 6-bit values behind the characters of the encoding, without the padding.\<close>

fun sextets :: "nat list \<Rightarrow> nat list" where
  "sextets [] = []"
| "sextets [a] = [a div 4, a mod 4 * 16]"
| "sextets [a, b] = [a div 4, a mod 4 * 16 + b div 16, b mod 16 * 4]"
| "sextets (a # b # c # r) =
     [a div 4, a mod 4 * 16 + b div 16, b mod 16 * 4 + c div 64, c mod 64] @ sextets r"

text \<open>\<open>btoa\<close> throws \<open>InvalidCharacterError\<close> when a code unit is above 255.\<close>

definition btoa :: "jsstring \<Rightarrow> error + jsstring" where
  "btoa s =
     (if list_all (\<lambda>u. unat u < 256) s then Inr (base64_encode (map unat s))
      else Inl InvalidCharacterError)"

subsection \<open>\<open>atob\<close>: forgiving base64 decoding\<close>

definition b64_value :: "code_unit \<Rightarrow> nat option" where
  "b64_value u =
     (let n = unat u in
      if 65 \<le> n \<and> n \<le> 90 then Some (n - 65)
      else if 97 \<le> n \<and> n \<le> 122 then Some (n - 71)
      else if 48 \<le> n \<and> n \<le> 57 then Some (n + 4)
      else if n = 43 then Some 62
      else if n = 47 then Some 63
      else None)"

text \<open>ASCII whitespace: tab, line feed, form feed, carriage return, space.\<close>

definition is_ascii_whitespace :: "code_unit \<Rightarrow> bool" where
  "is_ascii_whitespace u \<longleftrightarrow> unat u \<in> {9, 10, 12, 13, 32}"

text \<open>When the length is a multiple of four, one or two \<open>=\<close> at the end are removed.\<close>

definition strip_padding :: "jsstring \<Rightarrow> jsstring" where
  "strip_padding s =
     (if length s mod 4 = 0 \<and> s \<noteq> [] \<and> last s = pad_char then
        (if butlast s \<noteq> [] \<and> last (butlast s) = pad_char then butlast (butlast s)
         else butlast s)
      else s)"

text \<open>Four 6-bit values give three bytes; two at the end give one byte and three give
  two, the bits left over being dropped.\<close>

fun decode_sextets :: "nat list \<Rightarrow> nat list" where
  "decode_sextets (a # b # c # d # r) =
     [a * 4 + b div 16, b mod 16 * 16 + c div 4, c mod 4 * 64 + d] @ decode_sextets r"
| "decode_sextets [a, b, c] = [a * 4 + b div 16, b mod 16 * 16 + c div 4]"
| "decode_sextets [a, b] = [a * 4 + b div 16]"
| "decode_sextets [a] = []"
| "decode_sextets [] = []"

text \<open>\<open>atob\<close> throws \<open>InvalidCharacterError\<close> when, whitespace and padding removed,
  the length is 1 modulo 4 or a character is outside the alphabet.\<close>

definition atob :: "jsstring \<Rightarrow> error + jsstring" where
  "atob s =
     (let d = strip_padding (filter (\<lambda>u. \<not> is_ascii_whitespace u) s) in
      if length d mod 4 = 1 then Inl InvalidCharacterError
      else (case those (map b64_value d) of
              None \<Rightarrow> Inl InvalidCharacterError
            | Some vs \<Rightarrow> Inr (map of_nat (decode_sextets vs))))"

subsection \<open>Decoding UTF-8\<close>

text \<open>What a byte announces at the start of a sequence: a code point of its own, the start
  of a longer sequence (bytes still needed, bits so far, and the range allowed for the
  next byte), or nothing valid.\<close>

datatype lead = Single nat | Start nat nat nat nat | Bad

definition utf8_lead :: "nat \<Rightarrow> lead" where
  "utf8_lead b =
     (if b \<le> 0x7F then Single b
      else if 0xC2 \<le> b \<and> b \<le> 0xDF then Start 1 (b mod 32) 0x80 0xBF
      else if 0xE0 \<le> b \<and> b \<le> 0xEF then
        Start 2 (b mod 16) (if b = 0xE0 then 0xA0 else 0x80) (if b = 0xED then 0x9F else 0xBF)
      else if 0xF0 \<le> b \<and> b \<le> 0xF4 then
        Start 3 (b mod 8) (if b = 0xF0 then 0x90 else 0x80) (if b = 0xF4 then 0x8F else 0xBF)
      else Bad)"

text \<open>
  The decoder of the Encoding standard, as a function of the bytes still needed, the
  code point so far and the bounds of the next byte. It yields \<open>Some c\<close> for a code point
  and \<open>None\<close> for a decoding error. A byte that breaks a sequence ends the sequence
  with an error and is then read again as the start of the next one.
\<close>

fun utf8_decode :: "nat \<Rightarrow> nat \<Rightarrow> nat \<Rightarrow> nat \<Rightarrow> nat list \<Rightarrow> nat option list" where
  "utf8_decode needed cp lo hi [] = (if needed = 0 then [] else [None])"
| "utf8_decode needed cp lo hi (b # bs) =
     (if needed = 0 then
        (case utf8_lead b of
           Single c \<Rightarrow> Some c # utf8_decode 0 0 0x80 0xBF bs
         | Start n c l h \<Rightarrow> utf8_decode n c l h bs
         | Bad \<Rightarrow> None # utf8_decode 0 0 0x80 0xBF bs)
      else if b < lo \<or> hi < b then
        None #
        (case utf8_lead b of
           Single c \<Rightarrow> Some c # utf8_decode 0 0 0x80 0xBF bs
         | Start n c l h \<Rightarrow> utf8_decode n c l h bs
         | Bad \<Rightarrow> None # utf8_decode 0 0 0x80 0xBF bs)
      else if needed = 1 then Some (cp * 64 + b mod 64) # utf8_decode 0 0 0x80 0xBF bs
      else utf8_decode (needed - 1) (cp * 64 + b mod 64) 0x80 0xBF bs)"

text \<open>The UTF-16 code units of a code point.\<close>

definition utf16_units :: "nat \<Rightarrow> jsstring" where
  "utf16_units c =
     (if c < 0x10000 then [of_nat c]
      else [of_nat (0xD800 + (c - 0x10000) div 1024), of_nat (0xDC00 + (c - 0x10000) mod 1024)])"

text \<open>\<open>new TextDecoder()\<close> is the UTF-8 decoder that is not fatal and does not keep the
  byte order mark: an error becomes U+FFFD, and a first code point U+FEFF is dropped.\<close>

definition strip_bom :: "nat list \<Rightarrow> nat list" where
  "strip_bom cs = (case cs of [] \<Rightarrow> [] | c # r \<Rightarrow> if c = 0xFEFF then r else c # r)"

definition TextDecoder_decode :: "bytes \<Rightarrow> jsstring" where
  "TextDecoder_decode b =
     concat (map utf16_units
       (strip_bom (map (\<lambda>x. case x of None \<Rightarrow> 0xFFFD | Some c \<Rightarrow> c)
          (utf8_decode 0 0 0x80 0xBF (map unat b)))))"

text \<open>A Unicode scalar value: a code point that is no surrogate.\<close>

definition is_scalar_value :: "nat \<Rightarrow> bool" where
  "is_scalar_value c \<longleftrightarrow> c < 0x110000 \<and> \<not> (0xD800 \<le> c \<and> c \<le> 0xDFFF)"

text \<open>\<open>String.prototype.toWellFormed\<close>: the string with every lone surrogate replaced by
  U+FFFD. A string is well-formed when this leaves it as it is.\<close>

definition toWellFormed :: "jsstring \<Rightarrow> jsstring" where
  "toWellFormed s = concat (map utf16_units (scalar_values s))"

subsection \<open>String conversion of a stored value\<close>

text \<open>\<open>atob\<close> takes a string; a \<open>Uint8Array\<close> handed to it is converted as an array is:
  its elements in decimal, separated by commas.\<close>

definition digit_char :: "nat \<Rightarrow> code_unit" where
  "digit_char d = of_nat (48 + d)"

definition decimal_byte :: "8 word \<Rightarrow> jsstring" where
  "decimal_byte b =
     (let n = unat b in
      if n < 10 then [digit_char n]
      else if n < 100 then [digit_char (n div 10), digit_char (n mod 10)]
      else [digit_char (n div 100), digit_char (n div 10 mod 10), digit_char (n mod 10)])"

fun join_commas :: "jsstring list \<Rightarrow> jsstring" where
  "join_commas [] = []"
| "join_commas [s] = s"
| "join_commas (s # t # r) = s @ [44] @ join_commas (t # r)"

fun ToString :: "val \<Rightarrow> jsstring" where
  "ToString (Str s) = s"
| "ToString (Bytes b) = join_commas (map decimal_byte b)"

subsection \<open>Web Crypto and JSON, as parameters\<close>

text \<open>
  PBKDF2, AES-GCM and the JSON codec are not code of the module; the module is
  modelled over any implementation of them. \<open>'k\<close> is the opaque \<open>CryptoKey\<close>.
  \<open>aes_gcm_decrypt\<close> is \<open>None\<close> where \<open>crypto.subtle.decrypt\<close> rejects, and
  \<open>JSON_parse\<close> is \<open>None\<close> where \<open>JSON.parse\<close> throws.
\<close>

record 'k platform =
  pbkdf2 :: "bytes \<Rightarrow> bytes \<Rightarrow> 'k"
  aes_gcm_encrypt :: "'k \<Rightarrow> bytes \<Rightarrow> bytes \<Rightarrow> bytes"
  aes_gcm_decrypt :: "'k \<Rightarrow> bytes \<Rightarrow> bytes \<Rightarrow> bytes option"
  JSON_parse :: "jsstring \<Rightarrow> json option"
  JSON_stringify :: "json \<Rightarrow> jsstring"

section \<open>The module's state and its stores\<close>

text \<open>
  The two module variables, the IndexedDB object store \<open>appDataStore\<close>, and
  \<open>localStorage\<close>. The object store is the list of the \<open>put\<close>s that succeeded,
  newest first, so that the order of writes can be read off; a \<open>get\<close> returns the
  newest value of the key. \<open>put_faults\<close> says which of the coming \<open>put\<close> requests
  are rejected (\<open>True\<close>), and \<open>entropy\<close> is the byte stream that
  \<open>crypto.getRandomValues\<close> reads, \<open>drawn\<close> bytes of which are used up. The database
  is taken to be open and a \<open>get\<close> to succeed; logging has no effect on the state and is
  left out.
\<close>

record 'k world =
  masterCryptoKey :: "'k option"
  masterPasswordForMigration :: "jsstring option"
  idb :: "(string \<times> val) list"
  localStorage :: "string \<rightharpoonup> jsstring"
  put_faults :: "bool list"
  entropy :: "nat \<Rightarrow> 8 word"
  drawn :: nat

definition STORAGE_KEY_DATA :: string where
  "STORAGE_KEY_DATA = ''ai-nexus-data''"

definition STORAGE_KEY_SALT :: string where
  "STORAGE_KEY_SALT = ''ai-nexus-salt''"

definition STORAGE_KEY_PASS_VERIFIER :: string where
  "STORAGE_KEY_PASS_VERIFIER = ''ai-nexus-pass-verifier''"

definition getRandomValues :: "nat \<Rightarrow> 'k world \<Rightarrow> bytes \<times> 'k world" where
  "getRandomValues n w =
     (map (entropy w) [drawn w ..< drawn w + n], w\<lparr>drawn := drawn w + n\<rparr>)"

definition getFromDB :: "string \<Rightarrow> 'k world \<Rightarrow> val option" where
  "getFromDB key w = map_of (idb w) key"

definition setToDB :: "string \<Rightarrow> val \<Rightarrow> 'k world \<Rightarrow> (error + unit) \<times> 'k world" where
  "setToDB key v w =
     (case put_faults w of
        [] \<Rightarrow> (Inr (), w\<lparr>idb := (key, v) # idb w\<rparr>)
      | False # fs \<Rightarrow> (Inr (), w\<lparr>idb := (key, v) # idb w, put_faults := fs\<rparr>)
      | True # fs \<Rightarrow> (Inl RequestError, w\<lparr>put_faults := fs\<rparr>))"

section \<open>The cipher\<close>

definition arrayBufferToBase64 :: "bytes \<Rightarrow> error + jsstring" where
  "arrayBufferToBase64 buffer = btoa (map (\<lambda>b. of_nat (unat b)) buffer)"

definition encryptData ::
  "'k platform \<Rightarrow> jsstring \<Rightarrow> 'k \<Rightarrow> 'k world \<Rightarrow> (error + jsstring) \<times> 'k world" where
  "encryptData P data key w =
     (let dataBuffer = TextEncoder_encode data;
          (iv, w') = getRandomValues 12 w;
          encryptedBuffer = aes_gcm_encrypt P key iv dataBuffer
      in (arrayBufferToBase64 (iv @ encryptedBuffer), w'))"

definition base64ToArrayBuffer :: "jsstring \<Rightarrow> error + bytes" where
  "base64ToArrayBuffer base64 =
     (case atob base64 of
        Inl e \<Rightarrow> Inl e
      | Inr binary_string \<Rightarrow> Inr (map (\<lambda>u. of_nat (unat u)) binary_string))"

definition decryptData :: "'k platform \<Rightarrow> jsstring \<Rightarrow> 'k \<Rightarrow> error + jsstring" where
  "decryptData P encryptedBase64 key =
     (case base64ToArrayBuffer encryptedBase64 of
        Inl e \<Rightarrow> Inl e
      | Inr combinedBuffer \<Rightarrow>
          (let iv = take 12 combinedBuffer;
               ciphertext = drop 12 combinedBuffer
           in case aes_gcm_decrypt P key iv ciphertext of
                None \<Rightarrow> Inl OperationError
              | Some decryptedBuffer \<Rightarrow> Inr (TextDecoder_decode decryptedBuffer)))"

text \<open>\<open>deriveKey\<close> is typed for a \<open>Uint8Array\<close> salt; the salt read back from the store
  is \<open>any\<close>, and PBKDF2 rejects one that is no buffer.\<close>

definition deriveKey :: "'k platform \<Rightarrow> jsstring \<Rightarrow> val \<Rightarrow> error + 'k" where
  "deriveKey P password salt =
     (case salt of
        Bytes s \<Rightarrow> Inr (pbkdf2 P (TextEncoder_encode password) s)
      | Str s \<Rightarrow> Inl TypeError)"

section \<open>The legacy XOR cipher\<close>

text \<open>With an empty key, \<open>key.charCodeAt(i % 0)\<close> is \<open>NaN\<close>, and \<open>x ^ NaN\<close> is \<open>x\<close>.\<close>

definition legacySimpleXOR :: "jsstring \<Rightarrow> jsstring \<Rightarrow> jsstring" where
  "legacySimpleXOR data key =
     map (\<lambda>i. data ! i XOR (if key = [] then 0 else key ! (i mod length key)))
       [0 ..< length data]"

text \<open>\<open>decodeURIComponent(escape(binary))\<close> reads the binary string as UTF-8 and throws
  \<open>URIError\<close> where it is not well-formed.\<close>

definition binaryToUtf16 :: "jsstring \<Rightarrow> error + jsstring" where
  "binaryToUtf16 binary =
     (if list_ex (\<lambda>u. 256 \<le> unat u) binary then Inl URIError
      else (case those (utf8_decode 0 0 0x80 0xBF (map unat binary)) of
              None \<Rightarrow> Inl URIError
            | Some cs \<Rightarrow> Inr (concat (map utf16_units cs))))"

definition legacyDecrypt :: "jsstring \<Rightarrow> jsstring \<Rightarrow> error + jsstring" where
  "legacyDecrypt encryptedData masterKey =
     (if masterKey = [] then Inl LegacyKeyMissing
      else (case atob encryptedData of
              Inl e \<Rightarrow> Inl e
            | Inr binaryString \<Rightarrow>
                (case binaryToUtf16 binaryString of
                   Inl e \<Rightarrow> Inl e
                 | Inr xorResult \<Rightarrow> Inr (legacySimpleXOR xorResult masterKey))))"

section \<open>Saving\<close>

definition saveData ::
  "'k platform \<Rightarrow> json \<Rightarrow> 'k world \<Rightarrow> (error + unit) \<times> 'k world" where
  "saveData P data w =
     (case masterCryptoKey w of
        None \<Rightarrow> (Inl SaveKeyMissing, w)
      | Some key \<Rightarrow>
          (case encryptData P (JSON_stringify P data) key w of
             (Inl e, w1) \<Rightarrow> (Inl e, w1)
           | (Inr encryptedData, w1) \<Rightarrow> setToDB STORAGE_KEY_DATA (Str encryptedData) w1))"

section \<open>The credential store\<close>

text \<open>The known plaintext behind the verifier.\<close>

definition sentinel :: jsstring where
  "sentinel = ascii ''password_is_correct''"

text \<open>
  \<open>migrateKey\<close> moves a value of \<open>localStorage\<close> into the object store. A rejected write
  is caught and logged, and the value then stays in \<open>localStorage\<close>.
\<close>

definition migrateKey :: "string \<Rightarrow> 'k world \<Rightarrow> 'k world" where
  "migrateKey key w =
     (case localStorage w key of
        None \<Rightarrow> w
      | Some lsValue \<Rightarrow>
          (case setToDB key (Str lsValue) w of
             (Inl e, w') \<Rightarrow> w'
           | (Inr u, w') \<Rightarrow> w'\<lparr>localStorage := (localStorage w')(key := None)\<rparr>))"

definition hasMasterPassword :: "'k world \<Rightarrow> bool \<times> 'k world" where
  "hasMasterPassword w =
     (let w1 = migrateKey STORAGE_KEY_PASS_VERIFIER w
      in (getFromDB STORAGE_KEY_PASS_VERIFIER w1 \<noteq> None, w1))"

definition setMasterPassword ::
  "'k platform \<Rightarrow> jsstring \<Rightarrow> 'k world \<Rightarrow> (error + unit) \<times> 'k world" where
  "setMasterPassword P password w =
     (let w1 = w\<lparr>masterPasswordForMigration := Some password\<rparr>;
          (salt, w2) = getRandomValues 16 w1
      in case deriveKey P password (Bytes salt) of
           Inl e \<Rightarrow> (Inl e, w2)
         | Inr key \<Rightarrow>
             (let w3 = w2\<lparr>masterCryptoKey := Some key\<rparr> in
              case encryptData P sentinel key w3 of
                (Inl e, w4) \<Rightarrow> (Inl e, w4)
              | (Inr verifier, w4) \<Rightarrow>
                  (case setToDB STORAGE_KEY_SALT (Bytes salt) w4 of
                     (Inl e, w5) \<Rightarrow> (Inl e, w5)
                   | (Inr u, w5) \<Rightarrow>
                       (case setToDB STORAGE_KEY_PASS_VERIFIER (Str verifier) w5 of
                          (Inl e, w6) \<Rightarrow> (Inl e, w6)
                        | (Inr u, w6) \<Rightarrow>
                            (Inr (), w6\<lparr>localStorage := (localStorage w6)
                               (STORAGE_KEY_PASS_VERIFIER := None, STORAGE_KEY_SALT := None)\<rparr>)))))"

text \<open>The modern branch of \<open>verifyMasterPassword\<close>: the \<open>try\<close> block under \<open>if (salt)\<close>.\<close>

definition verifyModern ::
  "'k platform \<Rightarrow> jsstring \<Rightarrow> val \<Rightarrow> val \<Rightarrow> 'k world \<Rightarrow> bool \<times> 'k world" where
  "verifyModern P password salt verifier w =
     (case deriveKey P password salt of
        Inl e \<Rightarrow> (False, w)
      | Inr key \<Rightarrow>
          (let w' = w\<lparr>masterCryptoKey := Some key\<rparr> in
           case decryptData P (ToString verifier) key of
             Inl e \<Rightarrow> (False, w')
           | Inr decrypted \<Rightarrow> (decrypted = sentinel, w')))"

text \<open>The legacy branch: the \<open>try\<close> block under \<open>else\<close>.\<close>

definition verifyLegacy :: "jsstring \<Rightarrow> val \<Rightarrow> 'k world \<Rightarrow> bool \<times> 'k world" where
  "verifyLegacy password verifier w =
     (case legacyDecrypt (ToString verifier) password of
        Inl e \<Rightarrow> (False, w)
      | Inr decrypted \<Rightarrow> (decrypted = sentinel, w))"

definition verifyMasterPassword ::
  "'k platform \<Rightarrow> jsstring \<Rightarrow> 'k world \<Rightarrow> bool \<times> 'k world" where
  "verifyMasterPassword P password w =
     (let w1 = w\<lparr>masterPasswordForMigration := Some password\<rparr>;
          w2 = migrateKey STORAGE_KEY_PASS_VERIFIER w1;
          w3 = migrateKey STORAGE_KEY_SALT w2
      in case getFromDB STORAGE_KEY_PASS_VERIFIER w3 of
           None \<Rightarrow> (False, w3)
         | Some verifier \<Rightarrow>
             if \<not> truthy verifier then (False, w3)
             else (case getFromDB STORAGE_KEY_SALT w3 of
                     None \<Rightarrow> verifyLegacy password verifier w3
                   | Some salt \<Rightarrow>
                       if truthy salt then verifyModern P password salt verifier w3
                       else verifyLegacy password verifier w3))"

section \<open>Loading and migration\<close>

text \<open>
  The structure returned when there is no data record. The module comes in two copies
  that differ in it: the first (with \<open>zombieApocChar\<close> and \<open>amyChar\<close>) returns the two
  built-in characters, the second returns no characters. Of a built-in character only
  the \<open>id\<close> and \<open>name\<close> are kept here; its other fields are long text constants and a
  creation date.
\<close>

definition zombieApocChar :: json where
  "zombieApocChar =
     JObj [(''id'', JStr (ascii ''default-zombie-apocalypse'')),
           (''name'', JStr (ascii ''Zombie Apocalypse''))]"

definition amyChar :: json where
  "amyChar =
     JObj [(''id'', JStr (ascii ''default-amy-aime'')),
           (''name'', JStr (ascii ''Amy''))]"

definition defaultData :: json where
  "defaultData =
     JObj [(''characters'', JArr [zombieApocChar, amyChar]), (''chatSessions'', JArr []),
           (''plugins'', JArr []), (''lorebooks'', JArr [])]"

definition defaultData2 :: json where
  "defaultData2 =
     JObj [(''characters'', JArr []), (''chatSessions'', JArr []),
           (''plugins'', JArr []), (''lorebooks'', JArr [])]"

text \<open>The array under a field of a JSON object: a collection of the application data.\<close>

definition collection :: "string \<Rightarrow> json \<Rightarrow> json list option" where
  "collection name j =
     (case j of
        JObj kvs \<Rightarrow> (case map_of kvs name of Some (JArr xs) \<Rightarrow> Some xs | _ \<Rightarrow> None)
      | _ \<Rightarrow> None)"

text \<open>The modern branch of \<open>loadData\<close>: the \<open>try\<close> block under \<open>if (masterCryptoKey)\<close>.\<close>

definition loadModern ::
  "'k platform \<Rightarrow> val \<Rightarrow> 'k \<Rightarrow> 'k world \<Rightarrow> (error + json) \<times> 'k world" where
  "loadModern P encryptedData key w =
     (case decryptData P (ToString encryptedData) key of
        Inl e \<Rightarrow> (Inl DecryptFailed, w)
      | Inr jsonString \<Rightarrow>
          (case JSON_parse P jsonString of
             None \<Rightarrow> (Inl DecryptFailed, w)
           | Some data \<Rightarrow> (Inr data, w)))"

text \<open>The legacy branch: the \<open>try\<close> block under \<open>else if (masterPasswordForMigration)\<close>.
  Whatever is thrown inside is caught and replaced by the migration error.\<close>

definition loadLegacy ::
  "'k platform \<Rightarrow> val \<Rightarrow> jsstring \<Rightarrow> 'k world \<Rightarrow> (error + json) \<times> 'k world" where
  "loadLegacy P encryptedData password w =
     (case legacyDecrypt (ToString encryptedData) password of
        Inl e \<Rightarrow> (Inl MigrateFailed, w)
      | Inr jsonString \<Rightarrow>
          (case JSON_parse P jsonString of
             None \<Rightarrow> (Inl MigrateFailed, w)
           | Some data \<Rightarrow>
               (let (salt, w1) = getRandomValues 16 w in
                case deriveKey P password (Bytes salt) of
                  Inl e \<Rightarrow> (Inl MigrateFailed, w1)
                | Inr newKey \<Rightarrow>
                    (let w2 = w1\<lparr>masterCryptoKey := Some newKey\<rparr> in
                     case saveData P data w2 of
                       (Inl e, w3) \<Rightarrow> (Inl MigrateFailed, w3)
                     | (Inr u, w3) \<Rightarrow>
                         (case encryptData P sentinel newKey w3 of
                            (Inl e, w4) \<Rightarrow> (Inl MigrateFailed, w4)
                          | (Inr verifier, w4) \<Rightarrow>
                              (case setToDB STORAGE_KEY_SALT (Bytes salt) w4 of
                                 (Inl e, w5) \<Rightarrow> (Inl MigrateFailed, w5)
                               | (Inr u, w5) \<Rightarrow>
                                   (case setToDB STORAGE_KEY_PASS_VERIFIER (Str verifier) w5 of
                                      (Inl e, w6) \<Rightarrow> (Inl MigrateFailed, w6)
                                    | (Inr u, w6) \<Rightarrow> (Inr data, w6))))))))"

text \<open>\<open>loadData\<close>, over the structure it returns when there is no data record.\<close>

definition loadData_with ::
  "json \<Rightarrow> 'k platform \<Rightarrow> 'k world \<Rightarrow> (error + json) \<times> 'k world" where
  "loadData_with dflt P w =
     (let w1 = migrateKey STORAGE_KEY_DATA w in
      case getFromDB STORAGE_KEY_DATA w1 of
        None \<Rightarrow> (Inr dflt, w1)
      | Some encryptedData \<Rightarrow>
          if \<not> truthy encryptedData then (Inr dflt, w1)
          else (case masterCryptoKey w1 of
                  Some key \<Rightarrow> loadModern P encryptedData key w1
                | None \<Rightarrow>
                    (case masterPasswordForMigration w1 of
                       None \<Rightarrow> (Inl LoadKeyMissing, w1)
                     | Some password \<Rightarrow>
                         if password = [] then (Inl LoadKeyMissing, w1)
                         else loadLegacy P encryptedData password w1)))"

text \<open>The first copy of the module, and the second.\<close>

definition loadData :: "'k platform \<Rightarrow> 'k world \<Rightarrow> (error + json) \<times> 'k world" where
  "loadData = loadData_with defaultData"

definition loadData2 :: "'k platform \<Rightarrow> 'k world \<Rightarrow> (error + json) \<times> 'k world" where
  "loadData2 = loadData_with defaultData2"

section \<open>A small platform and some states, for evaluation\<close>

text \<open>
  An instance of the parameters on which the model can be run: the key is the password
  bytes followed by the salt, the cipher puts a one-byte tag (the sum of the key and
  nonce bytes) in front of the plaintext and rejects a ciphertext whose tag differs, and
  the JSON codec knows \<open>null\<close> and \<open>[]\<close>. It stands in for Web Crypto only where a
  concrete run is wanted.
\<close>

definition demo_tag :: "bytes \<Rightarrow> bytes \<Rightarrow> 8 word" where
  "demo_tag key iv = sum_list (key @ iv)"

definition demo_decrypt :: "bytes \<Rightarrow> bytes \<Rightarrow> bytes \<Rightarrow> bytes option" where
  "demo_decrypt key iv c =
     (case c of [] \<Rightarrow> None | t # p \<Rightarrow> if t = demo_tag key iv then Some p else None)"

definition demo_parse :: "jsstring \<Rightarrow> json option" where
  "demo_parse s =
     (if s = ascii ''null'' then Some JNull
      else if s = ascii ''[]'' then Some (JArr [])
      else None)"

definition demo_stringify :: "json \<Rightarrow> jsstring" where
  "demo_stringify j = (case j of JArr [] \<Rightarrow> ascii ''[]'' | _ \<Rightarrow> ascii ''null'')"

definition demo :: "bytes platform" where
  "demo = \<lparr>pbkdf2 = (\<lambda>pw salt. pw @ salt),
           aes_gcm_encrypt = (\<lambda>key iv p. demo_tag key iv # p),
           aes_gcm_decrypt = demo_decrypt,
           JSON_parse = demo_parse,
           JSON_stringify = demo_stringify\<rparr>"

text \<open>A fresh process on an empty profile: nothing stored, no key, no password.\<close>

definition locked :: "bytes world" where
  "locked = \<lparr>masterCryptoKey = None, masterPasswordForMigration = None, idb = [],
             localStorage = Map.empty, put_faults = [], entropy = (\<lambda>n. of_nat n), drawn = 0\<rparr>"

text \<open>
  A new process on a legacy profile: the verifier and the data blob are the XOR
  encryptions of the sentinel and of \<open>[]\<close> under the password \<open>oldpass\<close>, and there is
  no salt record. After a login with that password the session holds the password and no
  key.
\<close>

definition legacy_profile :: "bytes world" where
  "legacy_profile =
     locked\<lparr>idb := [(STORAGE_KEY_DATA, Str (ascii ''NDE='')),
                     (STORAGE_KEY_PASS_VERIFIER, Str (ascii ''Hw0XAxYcAQszDQM+EBwdHgETFQ==''))]\<rparr>"

definition legacy_verified :: "bytes world" where
  "legacy_verified = legacy_profile\<lparr>masterPasswordForMigration := Some (ascii ''oldpass'')\<rparr>"

text \<open>The same session on a store that accepts the next write and rejects the one after,
  and on a profile whose data blob is no base64.\<close>

definition legacy_verified_faulty :: "bytes world" where
  "legacy_verified_faulty = legacy_verified\<lparr>put_faults := [False, True]\<rparr>"

definition legacy_verified_corrupt :: "bytes world" where
  "legacy_verified_corrupt =
     legacy_verified\<lparr>idb := (STORAGE_KEY_DATA, Str (ascii ''!'')) # idb legacy_verified\<rparr>"

text \<open>A new process on a modern profile: the salt and the verifier are those that
  \<open>setMasterPassword\<close> wrote for the password \<open>right\<close>.\<close>

definition modern_profile :: "bytes world" where
  "modern_profile =
     locked\<lparr>idb := [(STORAGE_KEY_PASS_VERIFIER,
                       Str (ascii ''EBESExQVFhcYGRobmHBhc3N3b3JkX2lzX2NvcnJlY3Q='')),
                     (STORAGE_KEY_SALT, Bytes [0, 1, 2, 3, 4, 5, 6, 7, 8, 9, 10, 11, 12, 13, 14, 15])],
             drawn := 28\<rparr>"



section \<open>Notions used in the statements\<close>

text \<open>The writes that took the object store from one state to a later one, oldest first.\<close>

definition writes_since :: "'k world \<Rightarrow> 'k world \<Rightarrow> (string \<times> val) list" where
  "writes_since w w' = rev (take (length (idb w') - length (idb w)) (idb w'))"

text \<open>The legacy blob decrypts under the password to text that \<open>JSON.parse\<close> accepts.\<close>

definition parses :: "'k platform \<Rightarrow> val \<Rightarrow> jsstring \<Rightarrow> bool" where
  "parses P v pw \<longleftrightarrow>
     (case legacyDecrypt (ToString v) pw of
        Inl e \<Rightarrow> False
      | Inr jsonString \<Rightarrow> JSON_parse P jsonString \<noteq> None)"

text \<open>AES-GCM decrypts, under a key, what it encrypted under that key with a 12-byte
  nonce.\<close>

definition decrypts_own :: "'k platform \<Rightarrow> 'k \<Rightarrow> bool" where
  "decrypts_own P key \<longleftrightarrow>
     (\<forall>iv p. length iv = 12 \<longrightarrow> aes_gcm_decrypt P key iv (aes_gcm_encrypt P key iv p) = Some p)"


text \<open>The salt that the next call of \<open>getRandomValues(new Uint8Array(16))\<close> returns, and
  the key that \<open>deriveKey\<close> makes of a password and that salt.\<close>

definition new_salt :: "'k world \<Rightarrow> bytes" where
  "new_salt w = fst (getRandomValues 16 w)"

definition new_key :: "'k platform \<Rightarrow> jsstring \<Rightarrow> 'k world \<Rightarrow> 'k" where
  "new_key P pw w = pbkdf2 P (TextEncoder_encode pw) (new_salt w)"

text \<open>What \<open>encryptData\<close> returns for a text and a key when it draws its nonce at
  position \<open>n\<close> of the random source \<open>e\<close>; the lemmas go through it, the statements name
  \<open>encryptData\<close> itself.\<close>

definition sealed ::
  "'k platform \<Rightarrow> (nat \<Rightarrow> 8 word) \<Rightarrow> nat \<Rightarrow> 'k \<Rightarrow> jsstring \<Rightarrow> error + jsstring" where
  "sealed P e n key data =
     (let iv = map e [n ..< n + 12]
      in arrayBufferToBase64 (iv @ aes_gcm_encrypt P key iv (TextEncoder_encode data)))"

text \<open>The records that \<open>migrateKey\<close> can move into the object store: the strings of
  \<open>localStorage\<close>, under their keys.\<close>

definition moved :: "'k world \<Rightarrow> (string \<times> val) set" where
  "moved w = {(k, Str s) | k s. localStorage w k = Some s}"

text \<open>A later state of the stores: records from a given set were put in front of the
  object store, and \<open>localStorage\<close> lost entries at most.\<close>

definition evolves :: "(string \<times> val) set \<Rightarrow> 'k world \<Rightarrow> 'k world \<Rightarrow> bool" where
  "evolves A w w' \<longleftrightarrow>
     (\<exists>new. idb w' = new @ idb w \<and> set new \<subseteq> A) \<and> localStorage w' \<subseteq>\<^sub>m localStorage w"

text \<open>A new process on the stores that a session left: the module variables start
  empty.\<close>

definition restart :: "'k world \<Rightarrow> 'k world" where
  "restart w = w\<lparr>masterCryptoKey := None, masterPasswordForMigration := None\<rparr>"

section \<open>The stores and the session variables\<close>

lemma migrateKey_absent: "localStorage w key = None \<Longrightarrow> migrateKey key w = w"
  by (simp add: migrateKey_def)

lemma setToDB_session:
  "masterCryptoKey (snd (setToDB key v w)) = masterCryptoKey w"
  "masterPasswordForMigration (snd (setToDB key v w)) = masterPasswordForMigration w"
  by (simp_all add: setToDB_def split: list.splits bool.splits)

lemma migrateKey_session:
  "masterCryptoKey (migrateKey key w) = masterCryptoKey w"
  "masterPasswordForMigration (migrateKey key w) = masterPasswordForMigration w"
  by (auto simp: migrateKey_def setToDB_def split: option.splits list.splits bool.splits)

lemma setToDB_ok:
  "setToDB key v w = (Inr u, w') \<Longrightarrow>
     idb w' = (key, v) # idb w \<and> masterCryptoKey w' = masterCryptoKey w
     \<and> masterPasswordForMigration w' = masterPasswordForMigration w
     \<and> localStorage w' = localStorage w"
  by (auto simp: setToDB_def split: list.splits bool.splits)

lemma setToDB_rejected:
  "setToDB key v w = (Inl e, w') \<Longrightarrow>
     e = RequestError \<and> idb w' = idb w \<and> masterCryptoKey w' = masterCryptoKey w
     \<and> masterPasswordForMigration w' = masterPasswordForMigration w
     \<and> localStorage w' = localStorage w"
  by (auto simp: setToDB_def split: list.splits bool.splits)

lemma getRandomValues_frame:
  "getRandomValues n w = (b, w') \<Longrightarrow>
     idb w' = idb w \<and> masterCryptoKey w' = masterCryptoKey w
     \<and> masterPasswordForMigration w' = masterPasswordForMigration w
     \<and> localStorage w' = localStorage w \<and> put_faults w' = put_faults w"
  by (auto simp: getRandomValues_def)

lemma encryptData_frame:
  "encryptData P d key w = (r, w') \<Longrightarrow>
     idb w' = idb w \<and> masterCryptoKey w' = masterCryptoKey w
     \<and> masterPasswordForMigration w' = masterPasswordForMigration w
     \<and> localStorage w' = localStorage w \<and> put_faults w' = put_faults w"
  by (auto simp: encryptData_def getRandomValues_def Let_def)

lemma saveData_ok:
  "saveData P d w = (Inr u, w') \<Longrightarrow>
     (\<exists>blob. idb w' = (STORAGE_KEY_DATA, Str blob) # idb w)
     \<and> masterCryptoKey w' = masterCryptoKey w
     \<and> masterPasswordForMigration w' = masterPasswordForMigration w"
  by (auto simp: saveData_def split: option.splits prod.splits sum.splits
      dest!: encryptData_frame setToDB_ok)

lemma saveData_failed:
  "saveData P d w = (Inl e, w') \<Longrightarrow>
     idb w' = idb w \<and> masterCryptoKey w' = masterCryptoKey w
     \<and> masterPasswordForMigration w' = masterPasswordForMigration w"
  by (auto simp: saveData_def split: option.splits prod.splits sum.splits
      dest!: encryptData_frame setToDB_rejected)

section \<open>Running the model on the small platform\<close>

lemmas keys = STORAGE_KEY_DATA_def STORAGE_KEY_SALT_def STORAGE_KEY_PASS_VERIFIER_def

lemmas utf8_eval = TextEncoder_encode_def lone_unit_def is_high_surrogate_def
  is_low_surrogate_def utf8_bytes_def TextDecoder_decode_def utf8_lead_def utf16_units_def
  strip_bom_def

lemmas b64_eval = atob_def btoa_def is_ascii_whitespace_def strip_padding_def pad_char_def
  b64_value_def b64_char_def arrayBufferToBase64_def base64ToArrayBuffer_def

lemmas demo_eval = demo_def demo_parse_def demo_stringify_def demo_tag_def demo_decrypt_def

lemmas world_eval = legacy_verified_def legacy_profile_def locked_def modern_profile_def
  getFromDB_def setToDB_def getRandomValues_def migrateKey_def

lemma legacy_blob:
  "legacyDecrypt [78, 68, 69, 61] [111, 108, 100, 112, 97, 115, 115] = Inr [91, 93]"
  by (simp add: legacyDecrypt_def b64_eval binaryToUtf16_def utf8_eval legacySimpleXOR_def upt_rec)

lemmas load_eval = loadData_with_def loadLegacy_def loadModern_def saveData_def encryptData_def
  decryptData_def deriveKey_def sentinel_def ascii_def legacy_blob

lemmas verify_eval = verifyMasterPassword_def verifyModern_def verifyLegacy_def decryptData_def
  deriveKey_def sentinel_def ascii_def

lemma setMasterPassword_modern_profile:
  "fst (setMasterPassword demo (ascii ''right'') locked) = Inr ()
   \<and> idb (snd (setMasterPassword demo (ascii ''right'') locked)) = idb modern_profile"
  by (simp add: setMasterPassword_def encryptData_def verify_eval world_eval keys demo_eval
      utf8_eval b64_eval upt_rec)

lemma legacy_login:
  "fst (verifyMasterPassword demo (ascii ''oldpass'') legacy_profile) = True
   \<and> masterCryptoKey (snd (verifyMasterPassword demo (ascii ''oldpass'') legacy_profile)) = None
   \<and> masterPasswordForMigration (snd (verifyMasterPassword demo (ascii ''oldpass'') legacy_profile))
       = Some (ascii ''oldpass'')"
  by (simp add: verify_eval world_eval keys demo_eval utf8_eval b64_eval upt_rec
      legacyDecrypt_def binaryToUtf16_def legacySimpleXOR_def)

lemma load_legacy_result: "fst (loadData_with dflt demo legacy_verified) = Inr (JArr [])"
  by (simp add: load_eval world_eval keys demo_eval utf8_eval b64_eval upt_rec)

lemma load_legacy_keys:
  "map fst (idb (snd (loadData_with dflt demo legacy_verified))) =
     [STORAGE_KEY_PASS_VERIFIER, STORAGE_KEY_SALT, STORAGE_KEY_DATA,
      STORAGE_KEY_DATA, STORAGE_KEY_PASS_VERIFIER]"
  by (simp add: load_eval world_eval keys demo_eval utf8_eval b64_eval upt_rec)

lemma faulty_result:
  "fst (loadData_with dflt demo legacy_verified_faulty) = Inl MigrateFailed"
  by (simp add: legacy_verified_faulty_def load_eval world_eval keys demo_eval
      utf8_eval b64_eval upt_rec)

lemma faulty_key:
  "masterCryptoKey (snd (loadData_with dflt demo legacy_verified_faulty)) =
     Some [111, 108, 100, 112, 97, 115, 115, 0, 1, 2, 3, 4, 5, 6, 7, 8, 9, 10, 11, 12, 13, 14, 15]"
  by (simp add: legacy_verified_faulty_def load_eval world_eval keys demo_eval
      utf8_eval b64_eval upt_rec)

lemma faulty_writes:
  "map fst (idb (snd (loadData_with dflt demo legacy_verified_faulty))) =
     [STORAGE_KEY_DATA, STORAGE_KEY_DATA, STORAGE_KEY_PASS_VERIFIER]"
  by (simp add: legacy_verified_faulty_def load_eval world_eval keys demo_eval
      utf8_eval b64_eval upt_rec)

lemma faulty_retry:
  "fst (loadData_with dflt demo (snd (loadData_with dflt demo legacy_verified_faulty)))
     = Inr (JArr [])
   \<and> map fst (idb (snd (loadData_with dflt demo
        (snd (loadData_with dflt demo legacy_verified_faulty)))))
     = [STORAGE_KEY_DATA, STORAGE_KEY_DATA, STORAGE_KEY_PASS_VERIFIER]"
  by (simp add: legacy_verified_faulty_def load_eval world_eval keys demo_eval
      utf8_eval b64_eval upt_rec)

lemma corrupt_result:
  "fst (loadData_with dflt demo legacy_verified_corrupt) = Inl MigrateFailed
   \<and> \<not> parses demo (Str (ascii ''!'')) (ascii ''oldpass'')
   \<and> masterCryptoKey (snd (loadData_with dflt demo legacy_verified_corrupt)) = None"
  by (simp add: legacy_verified_corrupt_def parses_def legacyDecrypt_def load_eval world_eval
      keys demo_eval utf8_eval b64_eval upt_rec)

lemma wrong_result: "fst (verifyMasterPassword demo (ascii ''wrong'') modern_profile) = False"
  by (simp add: verify_eval world_eval keys demo_eval utf8_eval b64_eval upt_rec)

lemma right_result:
  "fst (verifyMasterPassword demo (ascii ''right'') modern_profile) = True
   \<and> masterCryptoKey (snd (verifyMasterPassword demo (ascii ''right'') modern_profile)) =
       Some [114, 105, 103, 104, 116, 0, 1, 2, 3, 4, 5, 6, 7, 8, 9, 10, 11, 12, 13, 14, 15]"
  by (simp add: verify_eval world_eval keys demo_eval utf8_eval b64_eval upt_rec)

lemma save_after_failed_login:
  "fst (saveData demo (JArr [])
     (snd (verifyMasterPassword demo (ascii ''wrong'') modern_profile))) = Inr ()"
  by (simp add: saveData_def encryptData_def verify_eval world_eval keys demo_eval utf8_eval
      b64_eval upt_rec)

section \<open>Saving without a key\<close>

text \<open>
  C9. Whatever the data, \<open>saveData\<close> called while no session key is held (the
  session is locked, or a legacy login has not migrated yet) throws the
  "master key not available" error and changes nothing: no record is written, and the
  rest of the state is as before.
\<close>

theorem saveData_without_key:
  "masterCryptoKey w = None \<Longrightarrow> saveData P data w = (Inl SaveKeyMissing, w)"
  by (simp add: saveData_def)

theorem saveData_without_key_witness:
  "masterCryptoKey locked = None \<and> saveData demo (JArr []) locked = (Inl SaveKeyMissing, locked)"
  using saveData_without_key [of locked demo "JArr []"] by (simp add: locked_def)

section \<open>Loading when there is no data record\<close>

lemma loadModern_error: "fst (loadModern P v key w) \<noteq> Inl LoadKeyMissing"
  by (simp add: loadModern_def split: sum.splits option.splits)

lemma loadLegacy_error: "fst (loadLegacy P v pw w) \<noteq> Inl LoadKeyMissing"
  by (simp add: loadLegacy_def split: sum.splits option.splits prod.splits)

text \<open>
  C5, as the code has it. When no data record was ever written (none in the object
  store, none left in \<open>localStorage\<close>), \<open>loadData\<close> returns the default structure and
  throws nothing, whatever the session holds, and the state is as before. In both copies
  of the module the chat-session, plugin and lorebook collections of that structure are
  empty. The character collection is empty in the second copy only: the first copy
  returns the two built-in characters.
\<close>

theorem loadData_default:
  assumes "STORAGE_KEY_DATA \<notin> fst ` set (idb w)" and "localStorage w STORAGE_KEY_DATA = None"
  shows "loadData P w = (Inr defaultData, w) \<and> loadData2 P w = (Inr defaultData2, w)
    \<and> collection ''chatSessions'' defaultData = Some [] \<and> collection ''plugins'' defaultData = Some []
    \<and> collection ''lorebooks'' defaultData = Some []
    \<and> collection ''characters'' defaultData = Some [zombieApocChar, amyChar]
    \<and> collection ''characters'' defaultData2 = Some []
    \<and> collection ''chatSessions'' defaultData2 = Some [] \<and> collection ''plugins'' defaultData2 = Some []
    \<and> collection ''lorebooks'' defaultData2 = Some []"
proof -
  have "getFromDB STORAGE_KEY_DATA w = None"
    using assms(1) by (simp add: getFromDB_def map_of_eq_None_iff)
  then have "loadData_with d P w = (Inr d, w)" for d
    using assms(2) by (simp add: loadData_with_def migrateKey_absent)
  then show ?thesis
    by (simp add: loadData_def loadData2_def collection_def defaultData_def defaultData2_def)
qed

theorem loadData_default_witness:
  "STORAGE_KEY_DATA \<notin> fst ` set (idb locked) \<and> localStorage locked STORAGE_KEY_DATA = None
   \<and> loadData demo locked = (Inr defaultData, locked) \<and> loadData2 demo locked = (Inr defaultData2, locked)"
  using loadData_default [of locked demo] by (simp add: locked_def)

text \<open>The first copy of the module, on an empty profile: the character collection of the
  structure returned is not empty.\<close>

theorem loadData_default_characters:
  "fst (loadData demo locked) = Inr defaultData
   \<and> collection ''characters'' defaultData = Some [zombieApocChar, amyChar]
   \<and> collection ''characters'' defaultData \<noteq> Some []"
  by (simp add: loadData_def loadData_with_def migrateKey_def getFromDB_def locked_def
      collection_def defaultData_def)

text \<open>
  C10. \<open>loadData\<close> looks for the data record before it looks at the session: with no
  data record it returns the default structure in every session state, also with no key
  and no password held. The "no master key available" error is thrown exactly when a
  data record is found (one that is not the empty string), no session key is held, and
  no migration password is held, where an empty password counts as none, as in the
  test \<open>else if (masterPasswordForMigration)\<close>. This holds for both copies of the module.
\<close>

theorem loadData_record_before_session:
  "(STORAGE_KEY_DATA \<notin> fst ` set (idb w) \<and> localStorage w STORAGE_KEY_DATA = None
      \<longrightarrow> loadData_with dflt P w = (Inr dflt, w))
   \<and> (fst (loadData_with dflt P w) = Inl LoadKeyMissing \<longleftrightarrow>
        (\<exists>v. getFromDB STORAGE_KEY_DATA (migrateKey STORAGE_KEY_DATA w) = Some v \<and> truthy v)
        \<and> masterCryptoKey w = None
        \<and> (masterPasswordForMigration w = None \<or> masterPasswordForMigration w = Some []))"
proof (intro conjI impI)
  assume a: "STORAGE_KEY_DATA \<notin> fst ` set (idb w) \<and> localStorage w STORAGE_KEY_DATA = None"
  then have "getFromDB STORAGE_KEY_DATA w = None"
    by (simp add: getFromDB_def map_of_eq_None_iff)
  with a show "loadData_with dflt P w = (Inr dflt, w)"
    by (simp add: loadData_with_def migrateKey_absent)
next
  show "fst (loadData_with dflt P w) = Inl LoadKeyMissing \<longleftrightarrow>
        (\<exists>v. getFromDB STORAGE_KEY_DATA (migrateKey STORAGE_KEY_DATA w) = Some v \<and> truthy v)
        \<and> masterCryptoKey w = None
        \<and> (masterPasswordForMigration w = None \<or> masterPasswordForMigration w = Some [])"
    using loadModern_error [of P _ _ "migrateKey STORAGE_KEY_DATA w"]
          loadLegacy_error [of P _ _ "migrateKey STORAGE_KEY_DATA w"]
    by (auto simp: loadData_with_def Let_def migrateKey_session split: option.splits)
qed

theorem loadData_record_before_session_witness:
  "loadData_with defaultData2 demo locked = (Inr defaultData2, locked)
   \<and> fst (loadData_with defaultData2 demo legacy_profile) = Inl LoadKeyMissing"
  using loadData_record_before_session [of locked defaultData2 demo]
        loadData_record_before_session [of legacy_profile defaultData2 demo]
  by (simp add: locked_def legacy_profile_def getFromDB_def migrateKey_def STORAGE_KEY_DATA_def
      STORAGE_KEY_PASS_VERIFIER_def ascii_def)

section \<open>Migration of a legacy profile\<close>

lemma loadLegacy_ok:
  assumes "loadLegacy P v pw w = (Inr data, w')"
  shows "\<exists>blob salt verifier.
           idb w' = (STORAGE_KEY_PASS_VERIFIER, Str verifier) # (STORAGE_KEY_SALT, Bytes salt)
                      # (STORAGE_KEY_DATA, Str blob) # idb w"
  using assms
  by (auto simp: loadLegacy_def deriveKey_def split: sum.splits option.splits prod.splits
      dest!: getRandomValues_frame saveData_ok encryptData_frame setToDB_ok)

text \<open>
  C3, as the code has it. In a session that holds the password and no key, a
  \<open>loadData\<close> that migrates the legacy data blob makes three writes, in this order: the
  data blob first (through \<open>saveData\<close>), then the salt, then the verifier. The object
  store lists its writes newest first.
\<close>

theorem migration_write_order:
  assumes "masterCryptoKey w = None"
    and "masterPasswordForMigration w = Some pw" and "pw \<noteq> []"
    and "getFromDB STORAGE_KEY_DATA (migrateKey STORAGE_KEY_DATA w) = Some v" and "truthy v"
    and "loadData_with dflt P w = (Inr data, w')"
  shows "\<exists>blob salt verifier.
           idb w' = (STORAGE_KEY_PASS_VERIFIER, Str verifier) # (STORAGE_KEY_SALT, Bytes salt)
                      # (STORAGE_KEY_DATA, Str blob) # idb (migrateKey STORAGE_KEY_DATA w)"
proof -
  have "loadLegacy P v pw (migrateKey STORAGE_KEY_DATA w) = (Inr data, w')"
    using assms by (simp add: loadData_with_def Let_def migrateKey_session)
  then show ?thesis by (rule loadLegacy_ok)
qed

theorem migration_write_order_witness:
  "\<exists>blob salt verifier.
     idb (snd (loadData_with defaultData2 demo legacy_verified)) =
       (STORAGE_KEY_PASS_VERIFIER, Str verifier) # (STORAGE_KEY_SALT, Bytes salt)
         # (STORAGE_KEY_DATA, Str blob) # idb legacy_verified"
proof -
  have "loadData_with defaultData2 demo legacy_verified =
          (Inr (JArr []), snd (loadData_with defaultData2 demo legacy_verified))"
    using load_legacy_result [of defaultData2] by (simp add: prod_eq_iff)
  from migration_write_order [OF _ _ _ _ _ this, of "ascii ''oldpass''" "Str (ascii ''NDE='')"]
  show ?thesis
    by (simp add: world_eval keys ascii_def)
qed

text \<open>The migration of the legacy profile writes the data blob first, not the salt.\<close>

theorem migration_writes_data_first:
  "map fst (writes_since legacy_verified (snd (loadData demo legacy_verified))) =
     [STORAGE_KEY_DATA, STORAGE_KEY_SALT, STORAGE_KEY_PASS_VERIFIER]
   \<and> map fst (writes_since legacy_verified (snd (loadData demo legacy_verified))) \<noteq>
     [STORAGE_KEY_SALT, STORAGE_KEY_PASS_VERIFIER, STORAGE_KEY_DATA]"
proof -
  have "map fst (writes_since legacy_verified (snd (loadData demo legacy_verified))) =
     [STORAGE_KEY_DATA, STORAGE_KEY_SALT, STORAGE_KEY_PASS_VERIFIER]"
    unfolding writes_since_def rev_map [symmetric] take_map [symmetric] loadData_def
      load_legacy_keys length_map [of fst, symmetric]
    by (simp add: legacy_verified_def legacy_profile_def locked_def)
  then show ?thesis by (simp add: keys)
qed

section \<open>Login on a modern profile\<close>

lemma verifyModern_sets_key:
  "deriveKey P password salt = Inr key \<Longrightarrow>
     masterCryptoKey (snd (verifyModern P password salt verifier w)) = Some key"
  by (simp add: verifyModern_def Let_def split: sum.splits)

text \<open>
  C1, what the code does. On a profile with a salt (a byte array) and a verifier,
  \<open>verifyMasterPassword\<close> sets the session key to the key derived from the password it was
  given and the salt, before it decrypts the verifier. The key is therefore set whatever
  the outcome, also when the decryption fails and the call returns false.
\<close>

theorem verifyMasterPassword_sets_key_unverified:
  assumes "getFromDB STORAGE_KEY_SALT
             (migrateKey STORAGE_KEY_SALT (migrateKey STORAGE_KEY_PASS_VERIFIER w))
           = Some (Bytes salt)"
    and "getFromDB STORAGE_KEY_PASS_VERIFIER
             (migrateKey STORAGE_KEY_SALT (migrateKey STORAGE_KEY_PASS_VERIFIER w))
           = Some verifier"
    and "truthy verifier"
  shows "masterCryptoKey (snd (verifyMasterPassword P password w)) =
           Some (pbkdf2 P (TextEncoder_encode password) salt)"
proof -
  have m: "migrateKey k (w'\<lparr>masterPasswordForMigration := x\<rparr>) =
             (migrateKey k w')\<lparr>masterPasswordForMigration := x\<rparr>"
    for k x and w' :: "'a world"
    by (simp add: migrateKey_def setToDB_def split: option.splits list.splits bool.splits)
  have g: "getFromDB k (w'\<lparr>masterPasswordForMigration := x\<rparr>) = getFromDB k w'"
    for k x and w' :: "'a world"
    by (simp add: getFromDB_def)
  show ?thesis
    using assms
    by (simp add: verifyMasterPassword_def Let_def m g verifyModern_sets_key deriveKey_def)
qed

theorem verifyMasterPassword_sets_key_unverified_witness:
  "fst (verifyMasterPassword demo (ascii ''wrong'') modern_profile) = False
   \<and> masterCryptoKey modern_profile = None
   \<and> masterCryptoKey (snd (verifyMasterPassword demo (ascii ''wrong'') modern_profile)) =
       Some [119, 114, 111, 110, 103, 0, 1, 2, 3, 4, 5, 6, 7, 8, 9, 10, 11, 12, 13, 14, 15]"
  using verifyMasterPassword_sets_key_unverified [of modern_profile
      "[0, 1, 2, 3, 4, 5, 6, 7, 8, 9, 10, 11, 12, 13, 14, 15]"
      "Str (ascii ''EBESExQVFhcYGRobmHBhc3N3b3JkX2lzX2NvcnJlY3Q='')" demo "ascii ''wrong''"]
    wrong_result
  by (simp add: modern_profile_def world_eval keys ascii_def demo_def utf8_eval)

section \<open>The legacy cipher's errors\<close>

lemma atob_error: "atob s = Inl e \<Longrightarrow> e = InvalidCharacterError"
  by (auto simp: atob_def Let_def split: if_splits option.splits)

lemma binaryToUtf16_error: "binaryToUtf16 b = Inl e \<Longrightarrow> e = URIError"
  by (auto simp: binaryToUtf16_def split: if_splits option.splits)

lemma length_legacySimpleXOR: "length (legacySimpleXOR x key) = length x"
  by (simp add: legacySimpleXOR_def)

text \<open>
  C6, as the code has it. \<open>legacyDecrypt\<close> throws the "legacy master key is not set"
  error exactly when the password is empty. With a password that is not empty it throws
  exactly when \<open>atob\<close> rejects the blob (\<open>InvalidCharacterError\<close>) or the decoded bytes
  are not well-formed UTF-8 (\<open>URIError\<close>), and it throws nothing else. Once both
  decodings have succeeded, the XOR step returns a string of the same length and does
  not throw.
\<close>

theorem legacyDecrypt_throws:
  "(legacyDecrypt blob pw = Inl LegacyKeyMissing \<longleftrightarrow> pw = [])
   \<and> (legacyDecrypt blob pw = Inl InvalidCharacterError \<longleftrightarrow>
        pw \<noteq> [] \<and> atob blob = Inl InvalidCharacterError)
   \<and> (legacyDecrypt blob pw = Inl URIError \<longleftrightarrow>
        pw \<noteq> [] \<and> (\<exists>b. atob blob = Inr b \<and> binaryToUtf16 b = Inl URIError))
   \<and> (\<forall>e. legacyDecrypt blob pw = Inl e \<longrightarrow>
        e = LegacyKeyMissing \<or> e = InvalidCharacterError \<or> e = URIError)
   \<and> (\<forall>b x. pw \<noteq> [] \<and> atob blob = Inr b \<and> binaryToUtf16 b = Inr x \<longrightarrow>
        legacyDecrypt blob pw = Inr (legacySimpleXOR x pw)
        \<and> length (legacySimpleXOR x pw) = length x)"
  by (auto simp: legacyDecrypt_def length_legacySimpleXOR split: sum.splits
      dest: atob_error binaryToUtf16_error)

theorem legacyDecrypt_throws_witness:
  "legacyDecrypt (ascii ''NDE='') [] = Inl LegacyKeyMissing
   \<and> legacyDecrypt (ascii ''NDE='') (ascii ''oldpass'') = Inr (ascii ''[]'')
   \<and> legacyDecrypt (ascii ''NDE='') (ascii ''oldpass'') \<noteq> Inl LegacyKeyMissing"
  using legacyDecrypt_throws [of "ascii ''NDE=''" "[]"]
    legacyDecrypt_throws [of "ascii ''NDE=''" "ascii ''oldpass''"]
  by (simp add: ascii_def legacy_blob)

text \<open>With a password that is not empty, a blob that is no base64, and one that decodes
  to the byte \<open>0xFF\<close>.\<close>

theorem legacyDecrypt_invalid_blob:
  "ascii ''oldpass'' \<noteq> []
   \<and> legacyDecrypt (ascii ''!'') (ascii ''oldpass'') = Inl InvalidCharacterError
   \<and> legacyDecrypt (ascii ''/w=='') (ascii ''oldpass'') = Inl URIError"
  by (simp add: legacyDecrypt_def ascii_def b64_eval binaryToUtf16_def utf8_eval)

section \<open>Base64: \<open>atob\<close> inverts \<open>btoa\<close>\<close>

lemma unat16: "n < 65536 \<Longrightarrow> unat (of_nat n :: 16 word) = n"
  by (simp add: unat_of_nat)

lemma unat_b64_char:
  "n < 64 \<Longrightarrow> unat (b64_char n) =
     (if n < 26 then 65 + n else if n < 52 then 71 + n else if n < 62 then n - 4
      else if n = 62 then 43 else 47)"
  unfolding b64_char_def by (auto simp del: of_nat_add of_nat_diff simp add: unat16)

lemma b64_value_char: "n < 64 \<Longrightarrow> b64_value (b64_char n) = Some n"
  by (auto simp: b64_value_def unat_b64_char Let_def)

lemma b64_char_not_pad: "n < 64 \<Longrightarrow> b64_char n \<noteq> pad_char"
proof
  assume "n < 64" and "b64_char n = pad_char"
  then have "unat (b64_char n) = 61" by (simp add: pad_char_def)
  with \<open>n < 64\<close> show False by (auto simp: unat_b64_char split: if_splits)
qed

lemma b64_char_not_whitespace: "n < 64 \<Longrightarrow> \<not> is_ascii_whitespace (b64_char n)"
  by (auto simp: is_ascii_whitespace_def unat_b64_char split: if_splits)

lemma pad_not_whitespace: "\<not> is_ascii_whitespace pad_char"
  by (simp add: is_ascii_whitespace_def pad_char_def)

lemma sextets_bound: "list_all (\<lambda>n. n < 256) ns \<Longrightarrow> list_all (\<lambda>s. s < 64) (sextets ns)"
  by (induction ns rule: sextets.induct) auto

lemma sextet_div16:
  fixes a b :: nat
  assumes "b < 256"
  shows "(a mod 4 * 16 + b div 16) div 16 = a mod 4"
proof -
  have "b div 16 < 16" using assms by simp
  then show ?thesis by simp
qed

lemma sextet_mod16:
  fixes a b :: nat
  assumes "b < 256"
  shows "(a mod 4 * 16 + b div 16) mod 16 = b div 16"
proof -
  have "b div 16 < 16" using assms by simp
  then show ?thesis by simp
qed

lemma sextet_divmod4:
  fixes b c :: nat
  assumes "c < 256"
  shows "(b mod 16 * 4 + c div 64) div 4 = b mod 16" "(b mod 16 * 4 + c div 64) mod 4 = c div 64"
proof -
  have "c div 64 < 4" using assms by simp
  then show "(b mod 16 * 4 + c div 64) div 4 = b mod 16" "(b mod 16 * 4 + c div 64) mod 4 = c div 64" by simp_all
qed

lemma sextet_arith:
  fixes a b c :: nat
  assumes "a < 256" and "b < 256" and "c < 256"
  shows "a div 4 * 4 + (a mod 4 * 16 + b div 16) div 16 = a"
    and "(a mod 4 * 16 + b div 16) mod 16 * 16 + (b mod 16 * 4 + c div 64) div 4 = b"
    and "(b mod 16 * 4 + c div 64) mod 4 * 64 + c mod 64 = c"
    and "a div 4 * 4 + a mod 4 * 16 div 16 = a"
    and "(a mod 4 * 16 + b div 16) mod 16 * 16 + b mod 16 * 4 div 4 = b"
  using assms by (simp_all add: sextet_div16 sextet_mod16 sextet_divmod4)


lemma decode_sextets_sextets: "list_all (\<lambda>n. n < 256) ns \<Longrightarrow> decode_sextets (sextets ns) = ns"
proof (induction ns rule: sextets.induct)
  case 1
  then show ?case by simp
next
  case (2 a)
  then show ?case using sextet_arith(4) [of a] by simp
next
  case (3 a b)
  then show ?case using sextet_arith(1,5) [of a b 0] by simp
next
  case (4 a b c r)
  then show ?case using sextet_arith(1,2,3) [of a b c] by simp
qed

lemma length_base64_encode: "length (base64_encode ns) mod 4 = 0"
  by (induction ns rule: base64_encode.induct) simp_all

lemma base64_encode_Nil: "base64_encode ns = [] \<longleftrightarrow> ns = []"
  by (cases ns rule: base64_encode.cases) simp_all

lemma length_sextets: "length (sextets ns) mod 4 \<noteq> 1"
  by (induction ns rule: sextets.induct) simp_all

lemma strip_padding_append:
  assumes "length q = 4" and "t \<noteq> []" and "length t mod 4 = 0"
  shows "strip_padding (q @ t) = q @ strip_padding t"
proof -
  have "0 < length t" using assms(2) by simp
  with assms(3) have "4 \<le> length t" by presburger
  then have "butlast t \<noteq> []" by (cases t rule: rev_cases) auto
  then show ?thesis
    using assms by (simp add: strip_padding_def butlast_append)
qed

lemma strip_padding_encode:
  "list_all (\<lambda>n. n < 256) ns \<Longrightarrow> strip_padding (base64_encode ns) = map b64_char (sextets ns)"
proof (induction ns rule: sextets.induct)
  case 1
  then show ?case by (simp add: strip_padding_def)
next
  case (2 a)
  then show ?case by (simp add: strip_padding_def)
next
  case (3 a b)
  then have "b mod 16 * 4 < 64" by simp
  then show ?case using b64_char_not_pad [of "b mod 16 * 4"] by (simp add: strip_padding_def)
next
  case (4 a b c r)
  show ?case
  proof (cases r)
    case Nil
    then show ?thesis using b64_char_not_pad [of "c mod 64"] by (simp add: strip_padding_def)
  next
    case (Cons x xs)
    then have "base64_encode r \<noteq> []" by (simp add: base64_encode_Nil)
    then have "strip_padding
        ([b64_char (a div 4), b64_char (a mod 4 * 16 + b div 16),
          b64_char (b mod 16 * 4 + c div 64), b64_char (c mod 64)] @ base64_encode r) =
        [b64_char (a div 4), b64_char (a mod 4 * 16 + b div 16),
          b64_char (b mod 16 * 4 + c div 64), b64_char (c mod 64)]
        @ strip_padding (base64_encode r)"
      by (intro strip_padding_append) (simp_all add: length_base64_encode)
    then show ?thesis using 4 by simp
  qed
qed

lemma those_map_Some: "those (map Some xs) = Some xs"
  by (induction xs) simp_all

lemma b64_values:
  "list_all (\<lambda>s. s < 64) xs \<Longrightarrow> map (b64_value \<circ> b64_char) xs = map Some xs"
  by (induction xs) (simp_all add: b64_value_char)

lemma set_base64_encode: "set (base64_encode ns) \<subseteq> b64_char ` set (sextets ns) \<union> {pad_char}"
  by (induction ns rule: base64_encode.induct) auto

lemma base64_encode_no_whitespace:
  assumes "list_all (\<lambda>n. n < 256) ns"
  shows "filter (\<lambda>u. \<not> is_ascii_whitespace u) (base64_encode ns) = base64_encode ns"
proof -
  have "\<not> is_ascii_whitespace u" if mem: "u \<in> set (base64_encode ns)" for u
  proof (cases "u = pad_char")
    case True
    then show ?thesis by (simp add: pad_not_whitespace)
  next
    case False
    then obtain s where "s \<in> set (sextets ns)" and "u = b64_char s"
      using mem set_base64_encode [of ns] by auto
    then show ?thesis
      using sextets_bound [OF assms] by (auto simp: list_all_iff b64_char_not_whitespace)
  qed
  then show ?thesis by (simp add: filter_id_conv)
qed

lemma atob_base64_encode:
  assumes "list_all (\<lambda>n. n < 256) ns"
  shows "atob (base64_encode ns) = Inr (map of_nat ns)"
  using assms length_sextets [of ns]
  by (simp add: atob_def base64_encode_no_whitespace strip_padding_encode b64_values
      sextets_bound those_map_Some decode_sextets_sextets)

lemma unat8: "unat (b :: 8 word) < 256"
  using unsigned_less [of b, where ?'a = nat] by simp

lemma unat_ucast_8_16: "unat (ucast (b :: 8 word) :: 16 word) = unat b"
  using unat8 [of b] by (simp add: unsigned_ucast_eq take_bit_nat_eq_self)

lemma ucast_8_16_8: "ucast (ucast (b :: 8 word) :: 16 word) = b"
  by (simp add: ucast_up_ucast_id is_up)

lemma base64_round_trip:
  "\<exists>c. arrayBufferToBase64 buffer = Inr c \<and> base64ToArrayBuffer c = Inr buffer"
proof -
  have 1: "list_all (\<lambda>n. n < 256) (map unat buffer)"
    by (simp add: list_all_iff unat8)
  have 2: "arrayBufferToBase64 buffer = Inr (base64_encode (map unat buffer))"
    using 1 by (simp add: arrayBufferToBase64_def btoa_def list_all_iff unat_ucast_8_16 comp_def)
  have 3: "base64ToArrayBuffer (base64_encode (map unat buffer)) = Inr buffer"
    by (simp add: base64ToArrayBuffer_def atob_base64_encode [OF 1] comp_def ucast_8_16_8
        map_idI)
  from 2 3 show ?thesis by blast
qed

section \<open>UTF-8: what \<open>TextDecoder\<close> returns of \<open>TextEncoder\<close>'s bytes\<close>

lemma mod_offset: fixes x :: nat shows "(k * n + x) mod n = x mod n"
  by simp

lemma mod32_lead: fixes x :: nat shows "x < 32 \<Longrightarrow> (192 + x) mod 32 = x"
  using mod_offset [of 6 32 x] by simp

lemma mod64_cont: fixes x :: nat shows "(128 + x mod 64) mod 64 = x mod 64"
  using mod_offset [of 2 64 "x mod 64"] by simp

lemma mod16_lead: fixes x :: nat shows "x < 16 \<Longrightarrow> (224 + x) mod 16 = x"
  using mod_offset [of 14 16 x] by simp

lemma mod8_lead: fixes x :: nat shows "x < 8 \<Longrightarrow> (240 + x) mod 8 = x"
  using mod_offset [of 30 8 x] by simp

lemma join3: fixes c :: nat shows "(c div 4096 * 64 + c div 64 mod 64) * 64 + c mod 64 = c"
proof -
  have "c div 4096 = c div 64 div 64" by (simp add: div_mult2_eq [symmetric])
  then have "c div 4096 * 64 + c div 64 mod 64 = c div 64" by simp
  then show ?thesis by simp
qed

lemma join4: fixes c :: nat
  shows "((c div 262144 * 64 + c div 4096 mod 64) * 64 + c div 64 mod 64) * 64 + c mod 64 = c"
proof -
  have "c div 262144 = c div 4096 div 64" by (simp add: div_mult2_eq [symmetric])
  then have e: "c div 262144 * 64 + c div 4096 mod 64 = c div 4096" by simp
  show ?thesis by (simp only: e join3)
qed

lemma second3: fixes c :: nat
  shows "2048 \<le> c \<Longrightarrow> c div 4096 = 0 \<Longrightarrow> 32 \<le> c div 64 mod 64"
    and "c < 55296 \<Longrightarrow> c div 4096 = 13 \<Longrightarrow> c div 64 mod 64 < 32"
proof -
  have e: "c div 64 = c div 4096 * 64 + c div 64 mod 64"
    using join3 [of c] by (simp add: div_mult2_eq [symmetric])
  show "2048 \<le> c \<Longrightarrow> c div 4096 = 0 \<Longrightarrow> 32 \<le> c div 64 mod 64"
  proof -
    assume "2048 \<le> c" and "c div 4096 = 0"
    then have "32 \<le> c div 64" and "c div 64 = c div 64 mod 64" using e by simp_all
    then show ?thesis by simp
  qed
  show "c < 55296 \<Longrightarrow> c div 4096 = 13 \<Longrightarrow> c div 64 mod 64 < 32"
  proof -
    assume "c < 55296" and "c div 4096 = 13"
    then have "c div 64 < 864" and "c div 64 = 832 + c div 64 mod 64" using e by simp_all
    then show ?thesis by simp
  qed
qed

lemma second4: fixes c :: nat
  shows "65536 \<le> c \<Longrightarrow> c div 262144 = 0 \<Longrightarrow> 16 \<le> c div 4096 mod 64"
    and "c < 1114112 \<Longrightarrow> c div 262144 = 4 \<Longrightarrow> c div 4096 mod 64 < 16"
proof -
  have "c div 262144 = c div 4096 div 64" by (simp add: div_mult2_eq [symmetric])
  then have e: "c div 4096 = c div 262144 * 64 + c div 4096 mod 64" by simp
  show "65536 \<le> c \<Longrightarrow> c div 262144 = 0 \<Longrightarrow> 16 \<le> c div 4096 mod 64"
  proof -
    assume "65536 \<le> c" and "c div 262144 = 0"
    then have "16 \<le> c div 4096" and "c div 4096 = c div 4096 mod 64" using e by simp_all
    then show ?thesis by simp
  qed
  show "c < 1114112 \<Longrightarrow> c div 262144 = 4 \<Longrightarrow> c div 4096 mod 64 < 16"
  proof -
    assume "c < 1114112" and "c div 262144 = 4"
    then have "c div 4096 < 272" and "c div 4096 = 256 + c div 4096 mod 64" using e by simp_all
    then show ?thesis by simp
  qed
qed


lemma unat8_of_nat: "n < 256 \<Longrightarrow> unat (of_nat n :: 8 word) = n"
  by (simp add: unat_of_nat)

lemma unat_utf8_bytes:
  assumes "c < 0x110000"
  shows "map unat (utf8_bytes c) =
     (if c < 0x80 then [c]
      else if c < 0x800 then [0xC0 + c div 64, 0x80 + c mod 64]
      else if c < 0x10000 then [0xE0 + c div 4096, 0x80 + c div 64 mod 64, 0x80 + c mod 64]
      else [0xF0 + c div 262144, 0x80 + c div 4096 mod 64,
            0x80 + c div 64 mod 64, 0x80 + c mod 64])"
proof -
  have m: "128 + x mod 64 < 256" for x :: nat
    using mod_less_divisor [of 64 x] by linarith
  have 1: "c < 0x800 \<Longrightarrow> 192 + c div 64 < 256" by simp
  have 2: "c < 0x10000 \<Longrightarrow> 224 + c div 4096 < 256" by simp
  have 3: "240 + c div 262144 < 256" using assms by simp
  show ?thesis
    unfolding utf8_bytes_def using m 1 2 3
    by (auto simp del: of_nat_add of_nat_numeral simp add: unat8_of_nat)
qed

lemma cont_range: fixes x :: nat shows "128 \<le> 128 + x mod 64" "128 + x mod 64 \<le> 191"
  using mod_less_divisor [of 64 x] by linarith+

lemma utf8_decode_bytes:
  assumes "is_scalar_value c"
  shows "utf8_decode 0 0 0x80 0xBF (map unat (utf8_bytes c) @ rest) =
           Some c # utf8_decode 0 0 0x80 0xBF rest"
proof -
  have lt: "c < 0x110000" and ns: "\<not> (0xD800 \<le> c \<and> c \<le> 0xDFFF)"
    using assms by (simp_all add: is_scalar_value_def)
  consider (one) "c < 0x80" | (two) "0x80 \<le> c" "c < 0x800"
    | (three) "0x800 \<le> c" "c < 0x10000" | (four) "0x10000 \<le> c"
    by linarith
  then show ?thesis
  proof cases
    case one
    then show ?thesis by (simp add: unat_utf8_bytes [OF lt] utf8_lead_def)
  next
    case two
    have d: "2 \<le> c div 64" "c div 64 < 32" using two by simp_all
    have lead: "utf8_lead (192 + c div 64) = Start 1 (c div 64) 128 191"
      using d by (simp add: utf8_lead_def mod32_lead)
    have j: "c div 64 * 64 + c mod 64 = c" by simp
    show ?thesis
      using two cont_range [of c]
      by (simp add: unat_utf8_bytes [OF lt] lead mod64_cont j)
  next
    case three
    have d: "c div 4096 < 16" using three by simp
    let ?lo = "if c div 4096 = 0 then 160 else 128 :: nat"
    let ?hi = "if c div 4096 = 13 then 159 else 191 :: nat"
    have lead: "utf8_lead (224 + c div 4096) = Start 2 (c div 4096) ?lo ?hi"
      using d by (simp add: utf8_lead_def mod16_lead)
    have lo: "?lo \<le> 128 + c div 64 mod 64"
      using second3(1) [of c] three by simp
    have "c < 55296" if "c div 4096 = 13"
    proof (rule ccontr)
      assume "\<not> c < 55296"
      then have "57344 \<le> c" using ns by simp
      then have "14 \<le> c div 4096" by simp
      with that show False by simp
    qed
    then have hi: "128 + c div 64 mod 64 \<le> ?hi"
      using second3(2) [of c] cont_range(2) [of "c div 64"] by auto
    show ?thesis
      using three lo hi cont_range [of c] join3 [of c]
      by (simp add: unat_utf8_bytes [OF lt] lead mod64_cont del: One_nat_def)
  next
    case four
    have d: "c div 262144 < 8" "c div 262144 \<le> 4" using lt by simp_all
    let ?lo = "if c div 262144 = 0 then 144 else 128 :: nat"
    let ?hi = "if c div 262144 = 4 then 143 else 191 :: nat"
    have lead: "utf8_lead (240 + c div 262144) = Start 3 (c div 262144) ?lo ?hi"
      using d by (simp add: utf8_lead_def mod8_lead)
    have lo: "?lo \<le> 128 + c div 4096 mod 64"
      using second4(1) [of c] four by simp
    have hi: "128 + c div 4096 mod 64 \<le> ?hi"
      using second4(2) [of c] lt cont_range(2) [of "c div 4096"] by auto
    show ?thesis
      using four lo hi cont_range [of c] cont_range [of "c div 64"] join4 [of c]
      by (simp add: unat_utf8_bytes [OF lt] lead mod64_cont del: One_nat_def)
  qed
qed

lemma unat16_bound: "unat (u :: 16 word) < 65536"
  using unsigned_less [of u, where ?'a = nat] by simp

lemma lone_unit_scalar: "is_scalar_value (lone_unit u)"
  using unat16_bound [of u]
  by (auto simp: lone_unit_def is_scalar_value_def is_high_surrogate_def is_low_surrogate_def)

lemma scalar_values_scalar: "list_all is_scalar_value (scalar_values s)"
proof (induction s rule: scalar_values.induct)
  case 1
  then show ?case by simp
next
  case (2 u)
  then show ?case by (simp add: lone_unit_scalar)
next
  case (3 u v us)
  have "is_scalar_value (0x10000 + (unat u - 0xD800) * 1024 + (unat v - 0xDC00))"
    if h: "is_high_surrogate u" and l: "is_low_surrogate v"
  proof -
    have "unat u \<le> 0xDBFF" and "unat v \<le> 0xDFFF"
      using h l by (simp_all add: is_high_surrogate_def is_low_surrogate_def)
    then have "unat u - 0xD800 \<le> 1023" and "unat v - 0xDC00 \<le> 1023"
      by linarith+
    then have "(unat u - 0xD800) * 1024 \<le> 1023 * 1024" and "unat v - 0xDC00 \<le> 1023"
      by (simp_all only: mult_le_mono1)
    then show ?thesis by (simp add: is_scalar_value_def)
  qed
  with 3 show ?case by (simp add: lone_unit_scalar)
qed

lemma utf8_decode_concat:
  "list_all is_scalar_value cs \<Longrightarrow>
     utf8_decode 0 0 0x80 0xBF (map unat (concat (map utf8_bytes cs))) = map Some cs"
  by (induction cs) (simp_all add: utf8_decode_bytes)

lemma utf8_round_trip:
  "TextDecoder_decode (TextEncoder_encode s) =
     concat (map utf16_units (strip_bom (scalar_values s)))"
  by (simp add: TextDecoder_decode_def TextEncoder_encode_def
      utf8_decode_concat [OF scalar_values_scalar] comp_def)

lemma unat_eq_FEFF: "unat (u :: 16 word) = 0xFEFF \<Longrightarrow> u = 0xFEFF"
proof -
  assume "unat u = 0xFEFF"
  then have "of_nat (unat u) = (of_nat 0xFEFF :: 16 word)" by simp
  then show ?thesis by simp
qed

lemma lone_unit_FEFF: "lone_unit u = 0xFEFF \<Longrightarrow> u = 0xFEFF"
  by (auto simp: lone_unit_def dest: unat_eq_FEFF split: if_splits)

lemma strip_bom_scalar_values:
  assumes "take 1 s \<noteq> [0xFEFF]"
  shows "strip_bom (scalar_values s) = scalar_values s"
proof (cases s rule: scalar_values.cases)
  case 1
  then show ?thesis by (simp add: strip_bom_def)
next
  case (2 u)
  then show ?thesis using assms lone_unit_FEFF [of u] by (auto simp: strip_bom_def)
next
  case (3 u v us)
  then show ?thesis using assms lone_unit_FEFF [of u] by (auto simp: strip_bom_def)
qed

lemma utf8_round_trip_well_formed:
  "toWellFormed s = s \<Longrightarrow> take 1 s \<noteq> [0xFEFF] \<Longrightarrow> TextDecoder_decode (TextEncoder_encode s) = s"
  by (simp add: utf8_round_trip strip_bom_scalar_values toWellFormed_def)

section \<open>The cipher's round trip\<close>

lemma encryptData_result:
  "\<exists>c. fst (encryptData P data key w) = Inr c
     \<and> base64ToArrayBuffer c =
         Inr (fst (getRandomValues 12 w)
              @ aes_gcm_encrypt P key (fst (getRandomValues 12 w)) (TextEncoder_encode data))"
  using base64_round_trip
    [of "fst (getRandomValues 12 w)
         @ aes_gcm_encrypt P key (fst (getRandomValues 12 w)) (TextEncoder_encode data)"]
  by (simp add: encryptData_def Let_def case_prod_beta)

lemma decrypt_encrypt:
  assumes "decrypts_own P key" and "fst (encryptData P data key w) = Inr c"
  shows "decryptData P c key = Inr (concat (map utf16_units (strip_bom (scalar_values data))))"
proof -
  let ?iv = "fst (getRandomValues 12 w)"
  have l: "length ?iv = 12" by (simp add: getRandomValues_def)
  have "base64ToArrayBuffer c = Inr (?iv @ aes_gcm_encrypt P key ?iv (TextEncoder_encode data))"
    using encryptData_result [of P data key w] assms(2) by auto
  then show ?thesis
    using assms(1) l by (simp add: decryptData_def decrypts_own_def utf8_round_trip)
qed

text \<open>
  C7, as the code has it. Let AES-GCM decrypt under a key what it encrypted under it.
  Then for every plaintext that is well-formed (no lone surrogate) and does not start
  with U+FEFF, \<open>encryptData\<close> returns a ciphertext that \<open>decryptData\<close> turns back into
  the plaintext under the same key; and of two calls in a row on the same plaintext and
  key, both ciphertexts decrypt to the plaintext, and they differ exactly when the two
  nonces drawn from the random source differ.
\<close>

theorem encrypt_decrypt_round_trip:
  assumes "decrypts_own P key"
    and "toWellFormed m = m" and "take 1 m \<noteq> [0xFEFF]"
    and "encryptData P m key w = (r1, w1)" and "encryptData P m key w1 = (r2, w2)"
  shows "\<exists>c1 c2. r1 = Inr c1 \<and> r2 = Inr c2
           \<and> decryptData P c1 key = Inr m \<and> decryptData P c2 key = Inr m
           \<and> (c1 = c2 \<longleftrightarrow> fst (getRandomValues 12 w) = fst (getRandomValues 12 w1))"
proof -
  let ?iv1 = "fst (getRandomValues 12 w)" and ?iv2 = "fst (getRandomValues 12 w1)"
  let ?enc = "\<lambda>iv. iv @ aes_gcm_encrypt P key iv (TextEncoder_encode m)"
  obtain c1 where c1: "r1 = Inr c1" "base64ToArrayBuffer c1 = Inr (?enc ?iv1)"
    using encryptData_result [of P m key w] assms(4) by auto
  obtain c2 where c2: "r2 = Inr c2" "base64ToArrayBuffer c2 = Inr (?enc ?iv2)"
    using encryptData_result [of P m key w1] assms(5) by auto
  have m: "concat (map utf16_units (strip_bom (scalar_values m))) = m"
    using assms(2,3) by (simp add: strip_bom_scalar_values toWellFormed_def)
  have d1: "decryptData P c1 key = Inr m"
    using decrypt_encrypt [OF assms(1), of m w c1] assms(4) c1(1) m by simp
  have d2: "decryptData P c2 key = Inr m"
    using decrypt_encrypt [OF assms(1), of m w1 c2] assms(5) c2(1) m by simp
  have l: "length ?iv1 = 12" "length ?iv2 = 12" by (simp_all add: getRandomValues_def)
  have "?iv1 = ?iv2" if "c1 = c2"
  proof -
    have "?enc ?iv1 = ?enc ?iv2" using that c1(2) c2(2) by simp
    then have "take 12 (?enc ?iv1) = take 12 (?enc ?iv2)" by simp
    then show ?thesis using l by simp
  qed
  moreover have "c1 = c2" if "?iv1 = ?iv2"
    using that assms(4,5) c1(1) c2(1) by (simp add: encryptData_def Let_def case_prod_beta)
  ultimately show ?thesis using c1(1) c2(1) d1 d2 by blast
qed

lemma demo_decrypts_own: "decrypts_own demo key"
  by (simp add: decrypts_own_def demo_def demo_decrypt_def)

text \<open>
  A plaintext that starts with U+FEFF comes back without it, and one with a lone
  surrogate comes back with U+FFFD in its place: \<open>TextDecoder\<close> drops a byte order mark,
  and \<open>TextEncoder\<close> replaces lone surrogates.
\<close>

theorem round_trip_drops_byte_order_mark:
  "fst (encryptData demo [0xFEFF, 0x61] [1, 2] locked)
     = Inr (ascii ''AAECAwQFBgcICQoLRe+7v2E='')
   \<and> decryptData demo (ascii ''AAECAwQFBgcICQoLRe+7v2E='') [1, 2] = Inr [0x61]
   \<and> fst (encryptData demo [0xD83D, 0x61] [1, 2] locked)
     = Inr (ascii ''AAECAwQFBgcICQoLRe+/vWE='')
   \<and> decryptData demo (ascii ''AAECAwQFBgcICQoLRe+/vWE='') [1, 2] = Inr [0xFFFD, 0x61]"
  by (simp add: encryptData_def decryptData_def ascii_def world_eval demo_eval utf8_eval
      b64_eval upt_rec)

theorem encrypt_decrypt_round_trip_witness:
  "\<exists>c1 c2.
     fst (encryptData demo (ascii ''hi'') [1, 2] locked) = Inr c1
     \<and> fst (encryptData demo (ascii ''hi'') [1, 2]
          (snd (encryptData demo (ascii ''hi'') [1, 2] locked))) = Inr c2
     \<and> decryptData demo c1 [1, 2] = Inr (ascii ''hi'')
     \<and> decryptData demo c2 [1, 2] = Inr (ascii ''hi'')
     \<and> c1 \<noteq> c2"
proof -
  let ?w1 = "snd (encryptData demo (ascii ''hi'') [1, 2] locked)"
  have wf: "toWellFormed (ascii ''hi'') = ascii ''hi''" "take 1 (ascii ''hi'') \<noteq> [0xFEFF]"
    by (simp_all add: toWellFormed_def ascii_def utf8_eval)
  have iv: "fst (getRandomValues 12 locked) \<noteq> fst (getRandomValues 12 ?w1)"
    by (simp add: encryptData_def world_eval upt_rec)
  from encrypt_decrypt_round_trip [OF demo_decrypts_own wf, of "[1, 2]" locked
      "fst (encryptData demo (ascii ''hi'') [1, 2] locked)" ?w1
      "fst (encryptData demo (ascii ''hi'') [1, 2] ?w1)"
      "snd (encryptData demo (ascii ''hi'') [1, 2] ?w1)"] iv
  show ?thesis by auto
qed

section \<open>Decrypting under another key\<close>





section \<open>What the operations write\<close>

lemma evolves_refl: "evolves A w w"
  by (simp add: evolves_def)

lemma evolves_idb: "evolves A w w' \<Longrightarrow> \<exists>new. idb w' = new @ idb w \<and> set new \<subseteq> A"
  by (simp add: evolves_def)

lemma evolves_localStorage: "evolves A w w' \<Longrightarrow> localStorage w' \<subseteq>\<^sub>m localStorage w"
  by (simp add: evolves_def)

lemma evolves_setToDB:
  "evolves A w0 w \<Longrightarrow> (key, v) \<in> A \<Longrightarrow> evolves A w0 (snd (setToDB key v w))"
  by (auto simp: evolves_def setToDB_def split: list.splits bool.splits)

lemma evolves_migrateKey:
  assumes "evolves A w0 w" and "moved w0 \<subseteq> A"
  shows "evolves A w0 (migrateKey key w)"
proof (cases "localStorage w key")
  case None
  then show ?thesis using assms(1) by (simp add: migrateKey_def)
next
  case (Some s)
  have "localStorage w0 key = Some s"
    using assms(1) Some by (auto simp: evolves_def map_le_def dom_def)
  then have "(key, Str s) \<in> A" using assms(2) by (auto simp: moved_def)
  from evolves_setToDB [OF assms(1) this] Some show ?thesis
    by (auto simp: migrateKey_def evolves_def map_le_def setToDB_def
        split: prod.splits sum.splits list.splits bool.splits)
qed

lemma evolves_session [simp]:
  "evolves A w0 (w\<lparr>masterCryptoKey := x\<rparr>) = evolves A w0 w"
  "evolves A w0 (w\<lparr>masterPasswordForMigration := y\<rparr>) = evolves A w0 w"
  by (simp_all add: evolves_def)

lemma evolves_verifyMasterPassword:
  "evolves (moved w) w (snd (verifyMasterPassword P pw w))"
proof -
  let ?w1 = "w\<lparr>masterPasswordForMigration := Some pw\<rparr>"
  have 0: "evolves (moved w) w ?w1" by (simp add: evolves_refl)
  have "evolves (moved w) w (migrateKey STORAGE_KEY_SALT (migrateKey STORAGE_KEY_PASS_VERIFIER ?w1))"
    by (intro evolves_migrateKey 0 subset_refl)
  then show ?thesis
    by (auto simp: verifyMasterPassword_def Let_def verifyModern_def verifyLegacy_def
        split: option.splits sum.splits)
qed

lemma evolves_hasMasterPassword: "evolves (moved w) w (snd (hasMasterPassword w))"
  by (simp add: hasMasterPassword_def Let_def evolves_migrateKey evolves_refl)

lemma migrateKey_moved: "evolves (moved w) w (migrateKey key w)"
  by (intro evolves_migrateKey evolves_refl subset_refl)

lemma migrateKey_random:
  "entropy (migrateKey key w) = entropy w" "drawn (migrateKey key w) = drawn w"
  by (auto simp: migrateKey_def setToDB_def split: option.splits list.splits bool.splits)

lemma new_key_migrateKey:
  "new_salt (migrateKey key w) = new_salt w" "new_key P pw (migrateKey key w) = new_key P pw w"
  by (simp_all add: new_key_def new_salt_def getRandomValues_def migrateKey_random)

lemma encryptData_sealed:
  "encryptData P d k w = (sealed P (entropy w) (drawn w) k d, w\<lparr>drawn := drawn w + 12\<rparr>)"
  by (simp add: encryptData_def sealed_def getRandomValues_def Let_def)

lemma sealed_Inr: "\<exists>c. sealed P e n k d = Inr c"
  using base64_round_trip by (auto simp: sealed_def Let_def)

lemma sealed_after_salt:
  "fst (encryptData P d k (snd (getRandomValues 16 w))) = sealed P (entropy w) (drawn w + 16) k d"
  by (simp add: encryptData_sealed getRandomValues_def)

lemma sealed_after_blob:
  "fst (encryptData P d k (snd (encryptData P d' k' (snd (getRandomValues 16 w)))))
     = sealed P (entropy w) (drawn w + 28) k d"
  by (simp add: encryptData_sealed getRandomValues_def add.commute [of "drawn w" 28])

lemma sealed_now: "fst (encryptData P d k w) = sealed P (entropy w) (drawn w) k d"
  by (simp add: encryptData_sealed)

lemma setMasterPassword_idb:
  assumes "sealed P (entropy w) (drawn w + 16) (new_key P pw w) sentinel = Inr verifier"
  shows "idb (snd (setMasterPassword P pw w)) = idb w
     \<or> idb (snd (setMasterPassword P pw w)) = (STORAGE_KEY_SALT, Bytes (new_salt w)) # idb w
     \<or> idb (snd (setMasterPassword P pw w)) =
          (STORAGE_KEY_PASS_VERIFIER, Str verifier) # (STORAGE_KEY_SALT, Bytes (new_salt w)) # idb w"
  using assms
  by (auto simp: setMasterPassword_def encryptData_sealed getRandomValues_def deriveKey_def
      setToDB_def Let_def new_key_def new_salt_def split: list.splits bool.splits)

lemma setMasterPassword_localStorage:
  "localStorage (snd (setMasterPassword P pw w)) \<subseteq>\<^sub>m localStorage w"
  by (auto simp: setMasterPassword_def encryptData_sealed getRandomValues_def deriveKey_def
      setToDB_def Let_def map_le_def split: list.splits bool.splits sum.splits)

lemma setMasterPassword_writes:
  "\<exists>verifier. sealed P (entropy w) (drawn w + 16) (new_key P pw w) sentinel = Inr verifier
     \<and> idb (snd (setMasterPassword P pw w)) \<in>
         {idb w, (STORAGE_KEY_SALT, Bytes (new_salt w)) # idb w,
          (STORAGE_KEY_PASS_VERIFIER, Str verifier)
            # (STORAGE_KEY_SALT, Bytes (new_salt w)) # idb w}"
proof -
  obtain verifier where
    v: "sealed P (entropy w) (drawn w + 16) (new_key P pw w) sentinel = Inr verifier"
    by (rule exE [OF sealed_Inr])
  from setMasterPassword_idb [OF v] v show ?thesis by auto
qed

lemma saveData_effect:
  "localStorage (snd (saveData P d w)) = localStorage w
   \<and> (idb (snd (saveData P d w)) = idb w
      \<or> (\<exists>key blob. masterCryptoKey w = Some key
            \<and> sealed P (entropy w) (drawn w) key (JSON_stringify P d) = Inr blob
            \<and> idb (snd (saveData P d w)) = (STORAGE_KEY_DATA, Str blob) # idb w))"
  by (auto simp: saveData_def encryptData_sealed setToDB_def
      split: option.splits sum.splits list.splits bool.splits)

lemma loadLegacy_unparsed:
  "\<not> parses P v pw \<Longrightarrow> loadLegacy P v pw w = (Inl MigrateFailed, w)"
  by (auto simp: loadLegacy_def parses_def split: sum.splits option.splits)

lemma loadLegacy_effect:
  assumes "legacyDecrypt (ToString v) pw = Inr js" and "JSON_parse P js = Some data"
    and "sealed P (entropy w) (drawn w + 16) (new_key P pw w) (JSON_stringify P data) = Inr blob"
    and "sealed P (entropy w) (drawn w + 28) (new_key P pw w) sentinel = Inr verifier"
    and "loadLegacy P v pw w = (r, w')"
  shows "masterCryptoKey w' = Some (new_key P pw w)
    \<and> masterPasswordForMigration w' = masterPasswordForMigration w
    \<and> localStorage w' = localStorage w
    \<and> (r = Inl MigrateFailed \<and> idb w' = idb w
       \<or> r = Inl MigrateFailed \<and> idb w' = (STORAGE_KEY_DATA, Str blob) # idb w
       \<or> r = Inl MigrateFailed
           \<and> idb w' = (STORAGE_KEY_SALT, Bytes (new_salt w)) # (STORAGE_KEY_DATA, Str blob) # idb w
       \<or> r = Inr data
           \<and> idb w' = (STORAGE_KEY_PASS_VERIFIER, Str verifier)
               # (STORAGE_KEY_SALT, Bytes (new_salt w)) # (STORAGE_KEY_DATA, Str blob) # idb w)"
  using assms
  by (auto simp: loadLegacy_def saveData_def encryptData_sealed getRandomValues_def deriveKey_def
        setToDB_def Let_def new_key_def new_salt_def add.commute [of "drawn w" 28]
      split: list.splits bool.splits)

lemma loadLegacy_localStorage: "localStorage (snd (loadLegacy P v pw w)) = localStorage w"
  by (auto simp: loadLegacy_def saveData_def encryptData_sealed getRandomValues_def deriveKey_def
      setToDB_def Let_def split: sum.splits option.splits list.splits bool.splits)

lemma loadLegacy_writes:
  assumes "legacyDecrypt (ToString v) pw = Inr js" and "JSON_parse P js = Some data"
  shows "\<exists>blob verifier.
       sealed P (entropy w) (drawn w + 16) (new_key P pw w) (JSON_stringify P data) = Inr blob
     \<and> sealed P (entropy w) (drawn w + 28) (new_key P pw w) sentinel = Inr verifier
     \<and> masterCryptoKey (snd (loadLegacy P v pw w)) = Some (new_key P pw w)
     \<and> (fst (loadLegacy P v pw w) = Inl MigrateFailed
          \<and> idb (snd (loadLegacy P v pw w)) \<in>
               {idb w, (STORAGE_KEY_DATA, Str blob) # idb w,
                (STORAGE_KEY_SALT, Bytes (new_salt w)) # (STORAGE_KEY_DATA, Str blob) # idb w}
        \<or> fst (loadLegacy P v pw w) = Inr data
          \<and> idb (snd (loadLegacy P v pw w)) =
               (STORAGE_KEY_PASS_VERIFIER, Str verifier)
                 # (STORAGE_KEY_SALT, Bytes (new_salt w)) # (STORAGE_KEY_DATA, Str blob) # idb w)"
proof -
  obtain blob where
    b: "sealed P (entropy w) (drawn w + 16) (new_key P pw w) (JSON_stringify P data) = Inr blob"
    by (rule exE [OF sealed_Inr])
  obtain verifier where
    v: "sealed P (entropy w) (drawn w + 28) (new_key P pw w) sentinel = Inr verifier"
    by (rule exE [OF sealed_Inr])
  obtain r w' where l: "loadLegacy P v pw w = (r, w')" by force
  from loadLegacy_effect [OF assms b v l] b v l show ?thesis by auto
qed

lemma loadData_localStorage:
  "localStorage (snd (loadData_with dflt P w)) = localStorage (migrateKey STORAGE_KEY_DATA w)"
  by (auto simp: loadData_with_def Let_def loadModern_def loadLegacy_localStorage
      split: option.splits sum.splits)

lemma loadData_writes:
  "idb (snd (loadData_with dflt P w)) = idb (migrateKey STORAGE_KEY_DATA w)
   \<or> (\<exists>held v js data blob verifier.
         masterPasswordForMigration w = Some held
       \<and> getFromDB STORAGE_KEY_DATA (migrateKey STORAGE_KEY_DATA w) = Some v
       \<and> legacyDecrypt (ToString v) held = Inr js \<and> JSON_parse P js = Some data
       \<and> sealed P (entropy w) (drawn w + 16) (new_key P held w) (JSON_stringify P data) = Inr blob
       \<and> sealed P (entropy w) (drawn w + 28) (new_key P held w) sentinel = Inr verifier
       \<and> idb (snd (loadData_with dflt P w)) \<in>
           {(STORAGE_KEY_DATA, Str blob) # idb (migrateKey STORAGE_KEY_DATA w),
            (STORAGE_KEY_SALT, Bytes (new_salt w)) # (STORAGE_KEY_DATA, Str blob)
              # idb (migrateKey STORAGE_KEY_DATA w),
            (STORAGE_KEY_PASS_VERIFIER, Str verifier) # (STORAGE_KEY_SALT, Bytes (new_salt w))
              # (STORAGE_KEY_DATA, Str blob) # idb (migrateKey STORAGE_KEY_DATA w)})"
proof -
  let ?w1 = "migrateKey STORAGE_KEY_DATA w"
  show ?thesis
  proof (cases "\<exists>v held. getFromDB STORAGE_KEY_DATA ?w1 = Some v \<and> truthy v
      \<and> masterCryptoKey ?w1 = None \<and> masterPasswordForMigration ?w1 = Some held \<and> held \<noteq> []
      \<and> parses P v held")
    case False
    then have "snd (loadData_with dflt P w) = ?w1"
      by (auto simp: loadData_with_def Let_def loadModern_def loadLegacy_unparsed
          split: option.splits sum.splits)
    then show ?thesis by simp
  next
    case True
    then obtain v held where g: "getFromDB STORAGE_KEY_DATA ?w1 = Some v" and t: "truthy v"
      and k: "masterCryptoKey ?w1 = None" and h: "masterPasswordForMigration ?w1 = Some held"
      and n: "held \<noteq> []" and p: "parses P v held"
      by blast
    obtain js data where d: "legacyDecrypt (ToString v) held = Inr js" "JSON_parse P js = Some data"
      using p by (auto simp: parses_def split: sum.splits)
    have l: "loadData_with dflt P w = loadLegacy P v held ?w1"
      using g t k h n by (simp add: loadData_with_def Let_def)
    from loadLegacy_writes [OF d, of ?w1] h show ?thesis
      unfolding l [symmetric] using g d
      by (auto simp: migrateKey_random new_key_migrateKey migrateKey_session)
  qed
qed

lemma loadLegacy_password:
  "masterPasswordForMigration (snd (loadLegacy P v pw w)) = masterPasswordForMigration w"
proof (cases "loadLegacy P v pw w")
  case (Pair r w')
  then show ?thesis
    by (cases r)
       (auto simp: loadLegacy_def deriveKey_def split: sum.splits option.splits prod.splits
          dest!: getRandomValues_frame saveData_failed saveData_ok encryptData_frame
            setToDB_ok setToDB_rejected)
qed

lemma setMasterPassword_password:
  "masterPasswordForMigration (snd (setMasterPassword P pw w)) = Some pw"
proof (cases "setMasterPassword P pw w")
  case (Pair r w')
  then show ?thesis
    by (cases r)
       (auto simp: setMasterPassword_def deriveKey_def Let_def
          split: sum.splits option.splits prod.splits
          dest!: getRandomValues_frame encryptData_frame setToDB_ok setToDB_rejected)
qed

lemma verifyMasterPassword_password:
  "masterPasswordForMigration (snd (verifyMasterPassword P pw w)) = Some pw"
  by (auto simp: verifyMasterPassword_def Let_def verifyModern_def verifyLegacy_def
      migrateKey_session split: option.splits sum.splits)

lemma saveData_password:
  "masterPasswordForMigration (snd (saveData P d w)) = masterPasswordForMigration w"
proof (cases "saveData P d w")
  case (Pair r w')
  then show ?thesis
    by (cases r) (auto dest!: saveData_failed saveData_ok)
qed

lemma loadData_password:
  "masterPasswordForMigration (snd (loadData_with dflt P w)) = masterPasswordForMigration w"
  by (auto simp: loadData_with_def Let_def loadModern_def migrateKey_session loadLegacy_password
      split: option.splits sum.splits)

section \<open>A migration that fails\<close>

text \<open>
  C2, what the code does. In a session that holds the password and no key, with a data
  record in the store, every failure of \<open>loadData\<close> is the migration error, and the
  password stays held. When the legacy blob does not decrypt to text that parses, the
  state is the one the migration started from: no key is set and nothing is written.
  When the failure comes later (a rejected write of the data blob, the salt or the
  verifier), the session key is already set to the key derived from the password and the
  new salt, and the object store holds the writes that were accepted before: nothing, the
  new data blob, or the new data blob and the salt. The session is then no longer one
  that awaits migration.
\<close>

theorem migration_failure:
  assumes "masterCryptoKey w = None"
    and "masterPasswordForMigration w = Some pw" and "pw \<noteq> []"
    and "getFromDB STORAGE_KEY_DATA (migrateKey STORAGE_KEY_DATA w) = Some v" and "truthy v"
    and "loadData_with dflt P w = (Inl e, w')"
  shows "e = MigrateFailed \<and> masterPasswordForMigration w' = Some pw
    \<and> (if parses P v pw
        then masterCryptoKey w' = Some (new_key P pw w)
          \<and> (\<exists>js data blob.
                legacyDecrypt (ToString v) pw = Inr js \<and> JSON_parse P js = Some data
              \<and> fst (encryptData P (JSON_stringify P data) (new_key P pw w)
                       (snd (getRandomValues 16 w))) = Inr blob
              \<and> idb w' \<in>
                {idb (migrateKey STORAGE_KEY_DATA w),
                 (STORAGE_KEY_DATA, Str blob) # idb (migrateKey STORAGE_KEY_DATA w),
                 (STORAGE_KEY_SALT, Bytes (new_salt w)) # (STORAGE_KEY_DATA, Str blob)
                   # idb (migrateKey STORAGE_KEY_DATA w)})
        else w' = migrateKey STORAGE_KEY_DATA w \<and> masterCryptoKey w' = None)"
proof -
  let ?w1 = "migrateKey STORAGE_KEY_DATA w"
  have l: "loadLegacy P v pw ?w1 = (Inl e, w')"
    using assms by (simp add: loadData_with_def Let_def migrateKey_session)
  have p: "masterPasswordForMigration w' = Some pw"
    using loadLegacy_password [of P v pw ?w1] l assms(2) by (simp add: migrateKey_session)
  show ?thesis
  proof (cases "parses P v pw")
    case False
    with loadLegacy_unparsed [of P v pw ?w1] l p assms(1) show ?thesis
      by (auto simp: migrateKey_session)
  next
    case True
    then obtain js data where
      d: "legacyDecrypt (ToString v) pw = Inr js" "JSON_parse P js = Some data"
      by (auto simp: parses_def split: sum.splits)
    from loadLegacy_writes [OF d, of ?w1] l p True d show ?thesis
      by (auto simp: new_key_migrateKey migrateKey_random sealed_after_salt)
  qed
qed

theorem migration_failure_witness:
  "masterCryptoKey legacy_verified_faulty = None
   \<and> fst (loadData_with defaultData demo legacy_verified_faulty) = Inl MigrateFailed
   \<and> masterPasswordForMigration (snd (loadData_with defaultData demo legacy_verified_faulty))
       = Some (ascii ''oldpass'')
   \<and> masterCryptoKey (snd (loadData_with defaultData demo legacy_verified_faulty)) =
       Some (new_key demo (ascii ''oldpass'') legacy_verified_faulty)
   \<and> masterCryptoKey (snd (loadData_with defaultData demo legacy_verified_faulty)) \<noteq> None
   \<and> map fst (idb (snd (loadData_with defaultData demo legacy_verified_faulty))) =
       STORAGE_KEY_DATA # map fst (idb legacy_verified_faulty)
   \<and> fst (loadData_with defaultData demo legacy_verified_corrupt) = Inl MigrateFailed
   \<and> snd (loadData_with defaultData demo legacy_verified_corrupt) = legacy_verified_corrupt"
proof -
  have 1: "loadData_with defaultData demo legacy_verified_faulty =
          (Inl MigrateFailed, snd (loadData_with defaultData demo legacy_verified_faulty))"
    using faulty_result [of defaultData] by (simp add: prod_eq_iff)
  have 2: "loadData_with defaultData demo legacy_verified_corrupt =
          (Inl MigrateFailed, snd (loadData_with defaultData demo legacy_verified_corrupt))"
    using corrupt_result [of defaultData] by (simp add: prod_eq_iff)
  have p: "parses demo (Str (ascii ''NDE='')) (ascii ''oldpass'')"
    by (simp add: parses_def ascii_def legacy_blob demo_eval)
  from migration_failure [OF _ _ _ _ _ 1, of "ascii ''oldpass''" "Str (ascii ''NDE='')"]
    migration_failure [OF _ _ _ _ _ 2, of "ascii ''oldpass''" "Str (ascii ''!'')"]
    p corrupt_result [of defaultData] faulty_result [of defaultData]
    faulty_writes [of defaultData]
  show ?thesis
    by (simp add: legacy_verified_faulty_def legacy_verified_corrupt_def world_eval keys ascii_def)
qed

text \<open>
  The salt write of a migration is rejected: \<open>loadData\<close> throws the migration error, but the
  session now holds a key. The retry does not decrypt the legacy blob again; it decrypts
  the new data blob with that key, and neither the salt nor the new verifier is ever
  written.
\<close>

theorem migration_failure_leaves_key:
  "masterCryptoKey legacy_verified_faulty = None
   \<and> fst (loadData demo legacy_verified_faulty) = Inl MigrateFailed
   \<and> masterCryptoKey (snd (loadData demo legacy_verified_faulty)) =
       Some [111, 108, 100, 112, 97, 115, 115, 0, 1, 2, 3, 4, 5, 6, 7, 8, 9, 10, 11, 12, 13, 14, 15]
   \<and> fst (loadData demo (snd (loadData demo legacy_verified_faulty))) = Inr (JArr [])
   \<and> map fst (idb (snd (loadData demo (snd (loadData demo legacy_verified_faulty)))))
       = [STORAGE_KEY_DATA, STORAGE_KEY_DATA, STORAGE_KEY_PASS_VERIFIER]"
  unfolding loadData_def
  using faulty_result [of defaultData] faulty_key [of defaultData] faulty_retry [of defaultData]
  by (simp add: legacy_verified_faulty_def legacy_verified_def legacy_profile_def locked_def)

text \<open>
  The next process on these stores: the login with the same password succeeds along the
  legacy path, since the verifier is the old one and there is no salt; \<open>loadData\<close> then
  applies the legacy cipher to the new data blob, which has replaced the legacy one, and
  throws the migration error.
\<close>

theorem migration_failure_next_process:
  "fst (verifyMasterPassword demo (ascii ''oldpass'')
          (restart (snd (loadData demo legacy_verified_faulty)))) = True
   \<and> masterCryptoKey (snd (verifyMasterPassword demo (ascii ''oldpass'')
          (restart (snd (loadData demo legacy_verified_faulty))))) = None
   \<and> fst (loadData demo (snd (verifyMasterPassword demo (ascii ''oldpass'')
          (restart (snd (loadData demo legacy_verified_faulty)))))) = Inl MigrateFailed"
  by (simp add: restart_def loadData_def legacy_verified_faulty_def load_eval verify_eval
      world_eval keys demo_eval utf8_eval b64_eval upt_rec
      legacyDecrypt_def binaryToUtf16_def legacySimpleXOR_def)

section \<open>The plaintext password\<close>

text \<open>
  C4, as the code has it. \<open>setMasterPassword\<close> and \<open>verifyMasterPassword\<close> store the
  password they are given in the module variable on every call, whatever the path and
  the outcome, and no operation clears the variable: the password stays held after a
  modern login, after \<open>setMasterPassword\<close> and after a completed migration. The password
  is not written to the stores. No operation adds or changes an entry of
  \<open>localStorage\<close>. The object store lists its writes newest first, and every operation
  leaves the records it finds there. \<open>verifyMasterPassword\<close> and \<open>hasMasterPassword\<close>
  write only records moved over from \<open>localStorage\<close>. \<open>setMasterPassword\<close> writes the new
  salt, drawn from the random source, and then the sentinel as \<open>encryptData\<close> returns it
  under the key derived from the password and that salt, or a beginning of these two
  writes when one is rejected. \<open>saveData\<close> writes nothing or the data as \<open>encryptData\<close>
  returns it under the session key. \<open>loadData\<close> writes what \<open>migrateKey\<close> moves over
  from \<open>localStorage\<close> and then nothing, or, when it migrates, the parsed legacy data and
  the sentinel as \<open>encryptData\<close> returns them under the key derived from the held
  password and the new salt, with the salt between them, or a beginning of these three
  writes.
\<close>

theorem password_retained_not_persisted:
  "masterPasswordForMigration (snd (setMasterPassword P pw w)) = Some pw
   \<and> masterPasswordForMigration (snd (verifyMasterPassword P pw w)) = Some pw
   \<and> masterPasswordForMigration (snd (hasMasterPassword w)) = masterPasswordForMigration w
   \<and> masterPasswordForMigration (snd (saveData P d w)) = masterPasswordForMigration w
   \<and> masterPasswordForMigration (snd (loadData_with dflt P w)) = masterPasswordForMigration w
   \<and> localStorage (snd (setMasterPassword P pw w)) \<subseteq>\<^sub>m localStorage w
   \<and> localStorage (snd (verifyMasterPassword P pw w)) \<subseteq>\<^sub>m localStorage w
   \<and> localStorage (snd (hasMasterPassword w)) \<subseteq>\<^sub>m localStorage w
   \<and> localStorage (snd (saveData P d w)) = localStorage w
   \<and> localStorage (snd (loadData_with dflt P w)) \<subseteq>\<^sub>m localStorage w
   \<and> (\<exists>new. idb (snd (verifyMasterPassword P pw w)) = new @ idb w \<and> set new \<subseteq> moved w)
   \<and> (\<exists>new. idb (snd (hasMasterPassword w)) = new @ idb w \<and> set new \<subseteq> moved w)
   \<and> (\<exists>verifier.
         fst (encryptData P sentinel (new_key P pw w) (snd (getRandomValues 16 w))) = Inr verifier
       \<and> idb (snd (setMasterPassword P pw w)) \<in>
           {idb w, (STORAGE_KEY_SALT, Bytes (new_salt w)) # idb w,
            (STORAGE_KEY_PASS_VERIFIER, Str verifier)
              # (STORAGE_KEY_SALT, Bytes (new_salt w)) # idb w})
   \<and> (idb (snd (saveData P d w)) = idb w
      \<or> (\<exists>key blob. masterCryptoKey w = Some key
            \<and> fst (encryptData P (JSON_stringify P d) key w) = Inr blob
            \<and> idb (snd (saveData P d w)) = (STORAGE_KEY_DATA, Str blob) # idb w))
   \<and> (\<exists>new. idb (migrateKey STORAGE_KEY_DATA w) = new @ idb w \<and> set new \<subseteq> moved w)
   \<and> (idb (snd (loadData_with dflt P w)) = idb (migrateKey STORAGE_KEY_DATA w)
      \<or> (\<exists>held v js data blob verifier.
            masterPasswordForMigration w = Some held
          \<and> getFromDB STORAGE_KEY_DATA (migrateKey STORAGE_KEY_DATA w) = Some v
          \<and> legacyDecrypt (ToString v) held = Inr js \<and> JSON_parse P js = Some data
          \<and> fst (encryptData P (JSON_stringify P data) (new_key P held w)
                   (snd (getRandomValues 16 w))) = Inr blob
          \<and> fst (encryptData P sentinel (new_key P held w)
                   (snd (encryptData P (JSON_stringify P data) (new_key P held w)
                      (snd (getRandomValues 16 w))))) = Inr verifier
          \<and> idb (snd (loadData_with dflt P w)) \<in>
              {(STORAGE_KEY_DATA, Str blob) # idb (migrateKey STORAGE_KEY_DATA w),
               (STORAGE_KEY_SALT, Bytes (new_salt w)) # (STORAGE_KEY_DATA, Str blob)
                 # idb (migrateKey STORAGE_KEY_DATA w),
               (STORAGE_KEY_PASS_VERIFIER, Str verifier) # (STORAGE_KEY_SALT, Bytes (new_salt w))
                 # (STORAGE_KEY_DATA, Str blob) # idb (migrateKey STORAGE_KEY_DATA w)}))"
proof -
  have "localStorage (snd (loadData_with dflt P w)) \<subseteq>\<^sub>m localStorage w"
    unfolding loadData_localStorage by (rule evolves_localStorage) (rule migrateKey_moved)
  moreover have "masterPasswordForMigration (snd (hasMasterPassword w)) = masterPasswordForMigration w"
    by (simp add: hasMasterPassword_def Let_def migrateKey_session)
  moreover note setMasterPassword_password [of P pw w] verifyMasterPassword_password [of P pw w]
    saveData_password [of P d w] loadData_password [of dflt P w]
    setMasterPassword_localStorage [of P pw w]
    evolves_localStorage [OF evolves_verifyMasterPassword [of w P pw]]
    evolves_localStorage [OF evolves_hasMasterPassword [of w]]
    conjunct1 [OF saveData_effect [of P d w]] conjunct2 [OF saveData_effect [of P d w]]
    evolves_idb [OF evolves_verifyMasterPassword [of w P pw]]
    evolves_idb [OF evolves_hasMasterPassword [of w]]
    setMasterPassword_writes [of P w pw]
    evolves_idb [OF migrateKey_moved [of w STORAGE_KEY_DATA]]
    loadData_writes [of dflt P w]
  ultimately have s:
  "masterPasswordForMigration (snd (setMasterPassword P pw w)) = Some pw
     \<and> masterPasswordForMigration (snd (verifyMasterPassword P pw w)) = Some pw
     \<and> masterPasswordForMigration (snd (hasMasterPassword w)) = masterPasswordForMigration w
     \<and> masterPasswordForMigration (snd (saveData P d w)) = masterPasswordForMigration w
     \<and> masterPasswordForMigration (snd (loadData_with dflt P w)) = masterPasswordForMigration w
     \<and> localStorage (snd (setMasterPassword P pw w)) \<subseteq>\<^sub>m localStorage w
     \<and> localStorage (snd (verifyMasterPassword P pw w)) \<subseteq>\<^sub>m localStorage w
     \<and> localStorage (snd (hasMasterPassword w)) \<subseteq>\<^sub>m localStorage w
     \<and> localStorage (snd (saveData P d w)) = localStorage w
     \<and> localStorage (snd (loadData_with dflt P w)) \<subseteq>\<^sub>m localStorage w
     \<and> (\<exists>new. idb (snd (verifyMasterPassword P pw w)) = new @ idb w \<and> set new \<subseteq> moved w)
     \<and> (\<exists>new. idb (snd (hasMasterPassword w)) = new @ idb w \<and> set new \<subseteq> moved w)
     \<and> (\<exists>verifier.
           sealed P (entropy w) (drawn w + 16) (new_key P pw w) sentinel = Inr verifier
         \<and> idb (snd (setMasterPassword P pw w)) \<in>
             {idb w, (STORAGE_KEY_SALT, Bytes (new_salt w)) # idb w,
              (STORAGE_KEY_PASS_VERIFIER, Str verifier)
                # (STORAGE_KEY_SALT, Bytes (new_salt w)) # idb w})
     \<and> (idb (snd (saveData P d w)) = idb w
        \<or> (\<exists>key blob. masterCryptoKey w = Some key
              \<and> sealed P (entropy w) (drawn w) key (JSON_stringify P d) = Inr blob
              \<and> idb (snd (saveData P d w)) = (STORAGE_KEY_DATA, Str blob) # idb w))
     \<and> (\<exists>new. idb (migrateKey STORAGE_KEY_DATA w) = new @ idb w \<and> set new \<subseteq> moved w)
     \<and> (idb (snd (loadData_with dflt P w)) = idb (migrateKey STORAGE_KEY_DATA w)
        \<or> (\<exists>held v js data blob verifier.
              masterPasswordForMigration w = Some held
            \<and> getFromDB STORAGE_KEY_DATA (migrateKey STORAGE_KEY_DATA w) = Some v
            \<and> legacyDecrypt (ToString v) held = Inr js \<and> JSON_parse P js = Some data
            \<and> sealed P (entropy w) (drawn w + 16) (new_key P held w) (JSON_stringify P data)
                = Inr blob
            \<and> sealed P (entropy w) (drawn w + 28) (new_key P held w) sentinel = Inr verifier
            \<and> idb (snd (loadData_with dflt P w)) \<in>
                {(STORAGE_KEY_DATA, Str blob) # idb (migrateKey STORAGE_KEY_DATA w),
                 (STORAGE_KEY_SALT, Bytes (new_salt w)) # (STORAGE_KEY_DATA, Str blob)
                   # idb (migrateKey STORAGE_KEY_DATA w),
                 (STORAGE_KEY_PASS_VERIFIER, Str verifier) # (STORAGE_KEY_SALT, Bytes (new_salt w))
                   # (STORAGE_KEY_DATA, Str blob) # idb (migrateKey STORAGE_KEY_DATA w)}))"
    by (intro conjI)
  show ?thesis
    unfolding sealed_after_blob unfolding sealed_after_salt unfolding sealed_now by (rule s)
qed

text \<open>A login on a modern profile succeeds and sets the key; the password is held
  afterwards. It is held after \<open>setMasterPassword\<close> and after a completed migration too.\<close>

theorem password_retained_after_modern_login:
  "fst (verifyMasterPassword demo (ascii ''right'') modern_profile) = True
   \<and> masterCryptoKey (snd (verifyMasterPassword demo (ascii ''right'') modern_profile)) =
       Some [114, 105, 103, 104, 116, 0, 1, 2, 3, 4, 5, 6, 7, 8, 9, 10, 11, 12, 13, 14, 15]
   \<and> masterPasswordForMigration (snd (verifyMasterPassword demo (ascii ''right'') modern_profile))
       = Some (ascii ''right'')
   \<and> masterPasswordForMigration (snd (setMasterPassword demo (ascii ''right'') locked))
       = Some (ascii ''right'')
   \<and> fst (loadData demo legacy_verified) = Inr (JArr [])
   \<and> masterPasswordForMigration (snd (loadData demo legacy_verified)) = Some (ascii ''oldpass'')"
  using right_result verifyMasterPassword_password [of demo "ascii ''right''" modern_profile]
    setMasterPassword_password [of demo "ascii ''right''" locked]
    load_legacy_result [of defaultData] loadData_password [of defaultData demo legacy_verified]
  by (simp add: loadData_def legacy_verified_def)

end
